theory Spec2Isabelle
  imports Main "HOL-Library.Multiset"
begin

section \<open>Data model\<close>

text \<open>
  JavaScript strings are sequences of UTF-16 code units; a string is modelled as the list
  of its code units. \<open>ascii\<close> writes an ASCII literal of the source.
\<close>

type_synonym js_string = "nat list"

definition ascii :: "string \<Rightarrow> js_string" where
  "ascii s = map of_char s"

text \<open>
  One row of the table \<open>grocery_items\<close> (the interface \<open>GroceryItem\<close>). The column
  \<open>id\<close> is called \<open>item_id\<close> here. The numeric columns are integers: the model covers the
  JavaScript numbers that are integers.
\<close>

record grocery_item =
  item_id :: int
  name :: js_string
  quantity :: int
  category :: js_string
  bought :: int
  created_at :: int

datatype store_error = OpenFailed | StatementFailed | NoSuchTable | RowidFull

datatype promise = Fulfilled | Rejected

text \<open>
  The state the accessor works on. \<open>db\<close> and \<open>dbPromise\<close> are the two module variables
  (\<open>db\<close> is true when the variable holds a handle). \<open>tbl\<close> and \<open>seq\<close> are the database file
  \<open>grocery.db\<close>: the rows of \<open>grocery_items\<close> in rowid order (\<open>None\<close> while the table does not
  exist) and the AUTOINCREMENT counter of the table. The environment is part of the state:
  \<open>web\<close> is \<open>Platform.OS === "web"\<close>, \<open>faults\<close> says for each coming call into the SQLite
  library whether it throws (an exhausted list means no further failure), \<open>clock\<close> is the
  sequence of values \<open>Date.now()\<close> returns and \<open>reads\<close> counts the readings taken.
\<close>

record world =
  db :: bool
  dbPromise :: "promise option"
  tbl :: "grocery_item list option"
  seq :: int
  web :: bool
  faults :: "bool list"
  clock :: "nat \<Rightarrow> int"
  reads :: nat

type_synonym 'a io = "world \<Rightarrow> (store_error + 'a) \<times> world"

section \<open>The SQLite library\<close>

text \<open>An awaited call: a rejection skips the rest of the \<open>try\<close> block.\<close>

definition await :: "'a io \<Rightarrow> ('a \<Rightarrow> 'b io) \<Rightarrow> 'b io" where
  "await m f w = (case m w of (Inl e, w') \<Rightarrow> (Inl e, w') | (Inr a, w') \<Rightarrow> f a w')"

definition native_call :: "world \<Rightarrow> bool \<times> world" where
  "native_call w = (case faults w of [] \<Rightarrow> (False, w) | f # fs \<Rightarrow> (f, w\<lparr>faults := fs\<rparr>))"

definition date_now :: "world \<Rightarrow> int \<times> world" where
  "date_now w = (clock w (reads w), w\<lparr>reads := Suc (reads w)\<rparr>)"

text \<open>A statement on \<open>grocery_items\<close>: it throws on a failure of the store and when the table is missing.\<close>

definition statement :: "(grocery_item list \<Rightarrow> world \<Rightarrow> (store_error + 'a) \<times> world) \<Rightarrow> 'a io" where
  "statement body w =
     (case native_call w of
        (True, w1) \<Rightarrow> (Inl StatementFailed, w1)
      | (False, w1) \<Rightarrow>
          (case tbl w1 of None \<Rightarrow> (Inl NoSuchTable, w1) | Some rows \<Rightarrow> body rows w1))"

text \<open>\<open>CREATE TABLE IF NOT EXISTS grocery_items (...)\<close>\<close>

definition execAsync_create :: "unit io" where
  "execAsync_create w =
     (case native_call w of
        (True, w1) \<Rightarrow> (Inl StatementFailed, w1)
      | (False, w1) \<Rightarrow>
          (case tbl w1 of None \<Rightarrow> (Inr (), w1\<lparr>tbl := Some []\<rparr>) | Some rows \<Rightarrow> (Inr (), w1)))"

text \<open>\<open>SELECT COUNT(*) as count FROM grocery_items\<close>\<close>

definition getFirstAsync_count :: "int io" where
  "getFirstAsync_count = statement (\<lambda>rows w. (Inr (int (length rows)), w))"

text \<open>
  \<open>INSERT INTO grocery_items (name, quantity, category, bought, created_at) VALUES (?, ?, ?, 0, ?)\<close>.
  The column \<open>id\<close> is \<open>INTEGER PRIMARY KEY AUTOINCREMENT\<close>: the new rowid is one more than the
  largest rowid the table has ever held, and the insert fails when that exceeds the largest
  64-bit rowid. The result is \<open>lastInsertRowId\<close>.
\<close>

definition largest_rowid :: int where
  "largest_rowid = 9223372036854775807"

definition max_rowid :: "grocery_item list \<Rightarrow> int" where
  "max_rowid rows = fold max (map item_id rows) 0"

definition runAsync_insert :: "js_string \<Rightarrow> int \<Rightarrow> js_string \<Rightarrow> int \<Rightarrow> int io" where
  "runAsync_insert nm q c t =
     statement (\<lambda>rows w.
       let rid = max (max_rowid rows) (seq w) + 1 in
       if rid > largest_rowid then (Inl RowidFull, w)
       else (Inr rid,
             w\<lparr>tbl := Some (rows @ [\<lparr>item_id = rid, name = nm, quantity = q, category = c,
                                     bought = 0, created_at = t\<rparr>]),
               seq := rid\<rparr>))"

text \<open>\<open>UPDATE grocery_items SET name = ?, quantity = ?, category = ? WHERE id = ?\<close>\<close>

definition runAsync_update :: "js_string \<Rightarrow> int \<Rightarrow> js_string \<Rightarrow> int \<Rightarrow> unit io" where
  "runAsync_update nm q c i =
     statement (\<lambda>rows w.
       (Inr (), w\<lparr>tbl := Some (map (\<lambda>r. if item_id r = i
                                          then r\<lparr>name := nm, quantity := q, category := c\<rparr>
                                          else r) rows)\<rparr>))"

text \<open>\<open>UPDATE grocery_items SET bought = ? WHERE id = ?\<close>\<close>

definition runAsync_set_bought :: "int \<Rightarrow> int \<Rightarrow> unit io" where
  "runAsync_set_bought b i =
     statement (\<lambda>rows w.
       (Inr (), w\<lparr>tbl := Some (map (\<lambda>r. if item_id r = i then r\<lparr>bought := b\<rparr> else r) rows)\<rparr>))"

text \<open>\<open>DELETE FROM grocery_items WHERE id = ?\<close>\<close>

definition runAsync_delete :: "int \<Rightarrow> unit io" where
  "runAsync_delete i =
     statement (\<lambda>rows w. (Inr (), w\<lparr>tbl := Some (filter (\<lambda>r. item_id r \<noteq> i) rows)\<rparr>))"

text \<open>\<open>DELETE FROM grocery_items WHERE bought = 1\<close>\<close>

definition runAsync_delete_bought :: "unit io" where
  "runAsync_delete_bought =
     statement (\<lambda>rows w. (Inr (), w\<lparr>tbl := Some (filter (\<lambda>r. bought r \<noteq> 1) rows)\<rparr>))"

text \<open>\<open>DELETE FROM grocery_items\<close>\<close>

definition runAsync_delete_all :: "unit io" where
  "runAsync_delete_all = statement (\<lambda>rows w. (Inr (), w\<lparr>tbl := Some []\<rparr>))"

text \<open>
  \<open>SELECT * FROM grocery_items ORDER BY created_at DESC\<close>: the rows sorted by descending
  \<open>created_at\<close>; rows with equal \<open>created_at\<close> stay in rowid order.
\<close>

definition getAllAsync_select :: "grocery_item list io" where
  "getAllAsync_select = statement (\<lambda>rows w. (Inr (sort_key (\<lambda>r. - created_at r) rows), w))"

section \<open>The storage accessor\<close>

text \<open>
  Each accessor is a \<open>try\<close> block (the function named \<open>_try\<close>, whose result is an error or a
  value) and the \<open>catch\<close> that turns the error into the accessor's result. The calls run one
  after the other, as the components await them; the logging has no effect on the state and is
  left out.
\<close>

text \<open>
  \<open>getDatabase\<close>: the cached handle, else the pending promise, else a new open. On the web the
  open is awaited, so a failure resets \<open>dbPromise\<close> after the assignment; on the other
  platforms the open is synchronous, the reset runs before the assignment, and the rejected
  promise stays in \<open>dbPromise\<close>.
\<close>

definition getDatabase :: "unit io" where
  "getDatabase w =
     (if db w then (Inr (), w)
      else case dbPromise w of
             Some Fulfilled \<Rightarrow> (Inr (), w)
           | Some Rejected \<Rightarrow> (Inl OpenFailed, w)
           | None \<Rightarrow>
               (case native_call w of
                  (True, w1) \<Rightarrow>
                    (Inl OpenFailed, w1\<lparr>dbPromise := (if web w1 then None else Some Rejected)\<rparr>)
                | (False, w1) \<Rightarrow> (Inr (), w1\<lparr>db := True, dbPromise := Some Fulfilled\<rparr>)))"

record sample_item =
  s_name :: js_string
  s_quantity :: int
  s_category :: js_string

text \<open>The three sample rows, as the code units of the literals in the source.\<close>

definition sampleItems :: "sample_item list" where
  "sampleItems =
     [\<lparr>s_name = [0x53, 0x1EEF, 0x61], s_quantity = 2,
       s_category = [0x110, 0x1ED3, 0x20, 0x75, 0x1ED1, 0x6E, 0x67]\<rparr>,
      \<lparr>s_name = [0x54, 0x72, 0x1EE9, 0x6E, 0x67], s_quantity = 10,
       s_category = [0x54, 0x68, 0x1EF1, 0x63, 0x20, 0x70, 0x68, 0x1EA9, 0x6D, 0x20,
                     0x74, 0x1B0, 0x1A1, 0x69, 0x20, 0x73, 0x1ED1, 0x6E, 0x67]\<rparr>,
      \<lparr>s_name = [0x42, 0xE1, 0x6E, 0x68, 0x20, 0x6D, 0xEC], s_quantity = 1,
       s_category = [0x54, 0x68, 0x1EF1, 0x63, 0x20, 0x70, 0x68, 0x1EA9, 0x6D, 0x20,
                     0x6B, 0x68, 0xF4]\<rparr>]"

text \<open>The loop \<open>for (const item of sampleItems)\<close>: it stops at the first insert that throws.\<close>

fun seed_loop :: "sample_item list \<Rightarrow> unit io" where
  "seed_loop [] w = (Inr (), w)"
| "seed_loop (item # items) w =
     (case date_now w of
        (t, w1) \<Rightarrow>
          (case runAsync_insert (s_name item) (s_quantity item) (s_category item) t w1 of
             (Inl e, w2) \<Rightarrow> (Inl e, w2)
           | (Inr rid, w2) \<Rightarrow> seed_loop items w2))"

definition seedSampleData_try :: "unit io" where
  "seedSampleData_try =
     await getDatabase (\<lambda>database.
     await getFirstAsync_count (\<lambda>count.
       if count = 0 then seed_loop sampleItems else (\<lambda>w. (Inr (), w))))"

text \<open>\<open>seedSampleData\<close> catches every error of its body and returns nothing.\<close>

definition seedSampleData :: "world \<Rightarrow> world" where
  "seedSampleData w = snd (seedSampleData_try w)"

definition initDatabase_try :: "bool io" where
  "initDatabase_try =
     await getDatabase (\<lambda>database.
     await execAsync_create (\<lambda>u w. (Inr True, seedSampleData w)))"

definition initDatabase :: "world \<Rightarrow> bool \<times> world" where
  "initDatabase w = (case initDatabase_try w of (Inl e, w') \<Rightarrow> (False, w') | (Inr b, w') \<Rightarrow> (b, w'))"

definition getAllItems_try :: "grocery_item list io" where
  "getAllItems_try = await getDatabase (\<lambda>database. getAllAsync_select)"

definition getAllItems :: "world \<Rightarrow> grocery_item list \<times> world" where
  "getAllItems w = (case getAllItems_try w of (Inl e, w') \<Rightarrow> ([], w') | (Inr rows, w') \<Rightarrow> (rows, w'))"

definition addItem_try :: "js_string \<Rightarrow> int \<Rightarrow> js_string \<Rightarrow> int io" where
  "addItem_try nm q c =
     await getDatabase (\<lambda>database w.
       case date_now w of (t, w1) \<Rightarrow> runAsync_insert nm q c t w1)"

text \<open>\<open>addItem\<close> returns \<open>lastInsertRowId\<close>, or \<open>null\<close> (\<open>None\<close>) from the \<open>catch\<close>.\<close>

definition addItem :: "js_string \<Rightarrow> int \<Rightarrow> js_string \<Rightarrow> world \<Rightarrow> int option \<times> world" where
  "addItem nm q c w =
     (case addItem_try nm q c w of (Inl e, w') \<Rightarrow> (None, w') | (Inr rid, w') \<Rightarrow> (Some rid, w'))"

text \<open>The accessors that return \<open>true\<close> from the \<open>try\<close> block and \<open>false\<close> from the \<open>catch\<close>.\<close>

definition try_bool :: "unit io \<Rightarrow> world \<Rightarrow> bool \<times> world" where
  "try_bool body w = (case body w of (Inl e, w') \<Rightarrow> (False, w') | (Inr u, w') \<Rightarrow> (True, w'))"

definition updateItem_try :: "int \<Rightarrow> js_string \<Rightarrow> int \<Rightarrow> js_string \<Rightarrow> unit io" where
  "updateItem_try i nm q c = await getDatabase (\<lambda>database. runAsync_update nm q c i)"

definition updateItem :: "int \<Rightarrow> js_string \<Rightarrow> int \<Rightarrow> js_string \<Rightarrow> world \<Rightarrow> bool \<times> world" where
  "updateItem i nm q c = try_bool (updateItem_try i nm q c)"

definition toggleBoughtStatus_try :: "int \<Rightarrow> int \<Rightarrow> unit io" where
  "toggleBoughtStatus_try i b = await getDatabase (\<lambda>database. runAsync_set_bought b i)"

definition toggleBoughtStatus :: "int \<Rightarrow> int \<Rightarrow> world \<Rightarrow> bool \<times> world" where
  "toggleBoughtStatus i b = try_bool (toggleBoughtStatus_try i b)"

definition deleteItem_try :: "int \<Rightarrow> unit io" where
  "deleteItem_try i = await getDatabase (\<lambda>database. runAsync_delete i)"

definition deleteItem :: "int \<Rightarrow> world \<Rightarrow> bool \<times> world" where
  "deleteItem i = try_bool (deleteItem_try i)"

definition deleteAllBoughtItems_try :: "unit io" where
  "deleteAllBoughtItems_try = await getDatabase (\<lambda>database. runAsync_delete_bought)"

definition deleteAllBoughtItems :: "world \<Rightarrow> bool \<times> world" where
  "deleteAllBoughtItems = try_bool deleteAllBoughtItems_try"

definition clearAllItems_try :: "unit io" where
  "clearAllItems_try = await getDatabase (\<lambda>database. runAsync_delete_all)"

definition clearAllItems :: "world \<Rightarrow> bool \<times> world" where
  "clearAllItems = try_bool clearAllItems_try"

text \<open>
  A process start: the module variables \<open>db\<close> and \<open>dbPromise\<close> are \<open>null\<close> again; the database
  file and the environment are as the last process left them.
\<close>

definition restart :: "world \<Rightarrow> world" where
  "restart w = w\<lparr>db := False, dbPromise := None\<rparr>"

text \<open>
  What the \<open>try\<close> block of an accessor needs in order to reach its \<open>return\<close>. \<open>call_ok\<close>:
  \<open>getDatabase\<close> resolves and the call into the SQLite library that follows it does not throw.
  \<open>statement_succeeds\<close>: moreover the statement finds its table. \<open>insert_succeeds\<close>: moreover
  the \<open>INSERT\<close> finds its table and an identifier for the new row.
\<close>

definition call_ok :: "world \<Rightarrow> bool" where
  "call_ok w = (case getDatabase w of (Inl e, w0) \<Rightarrow> False | (Inr u, w0) \<Rightarrow> \<not> fst (native_call w0))"

definition statement_succeeds :: "world \<Rightarrow> bool" where
  "statement_succeeds w \<longleftrightarrow> call_ok w \<and> tbl w \<noteq> None"

definition insert_succeeds :: "world \<Rightarrow> bool" where
  "insert_succeeds w \<longleftrightarrow>
     call_ok w \<and>
     (case tbl w of None \<Rightarrow> False
      | Some rows \<Rightarrow> max (max_rowid rows) (seq w) + 1 \<le> largest_rowid)"

section \<open>The form\<close>

text \<open>
  The white space that \<open>trim\<close> and \<open>parseInt\<close> skip: the code units of WhiteSpace and
  LineTerminator.
\<close>

definition isWhiteSpace :: "nat \<Rightarrow> bool" where
  "isWhiteSpace u \<longleftrightarrow>
     u \<in> set [0x9, 0xA, 0xB, 0xC, 0xD, 0x20, 0xA0, 0x1680, 0x2028, 0x2029, 0x202F, 0x205F,
              0x3000, 0xFEFF] \<or> (0x2000 \<le> u \<and> u \<le> 0x200A)"

definition trim :: "js_string \<Rightarrow> js_string" where
  "trim s = rev (dropWhile isWhiteSpace (rev (dropWhile isWhiteSpace s)))"

text \<open>The value of a code unit as a digit: \<open>0\<close> to \<open>9\<close>, then the letters in either case.\<close>

definition digitValue :: "nat \<Rightarrow> nat option" where
  "digitValue u =
     (if 0x30 \<le> u \<and> u \<le> 0x39 then Some (u - 0x30)
      else if 0x61 \<le> u \<and> u \<le> 0x7A then Some (u - 0x61 + 10)
      else if 0x41 \<le> u \<and> u \<le> 0x5A then Some (u - 0x41 + 10)
      else None)"

definition isRadixDigit :: "nat \<Rightarrow> nat \<Rightarrow> bool" where
  "isRadixDigit R u = (case digitValue u of None \<Rightarrow> False | Some d \<Rightarrow> d < R)"

definition digitsValue :: "nat \<Rightarrow> js_string \<Rightarrow> nat" where
  "digitsValue R Z = foldl (\<lambda>acc u. acc * R + (case digitValue u of None \<Rightarrow> 0 | Some d \<Rightarrow> d)) 0 Z"

text \<open>
  \<open>parseInt(string)\<close> with no radix: leading white space is skipped, then an optional sign, then
  an optional \<open>0x\<close> or \<open>0X\<close> (which makes the radix 16), then the longest run of digits; with no
  digit the result is \<open>NaN\<close> (\<open>None\<close>). The result is the mathematical integer that the
  digits denote. A JavaScript number holds it exactly when its magnitude is at most \<open>2^53\<close>;
  beyond that the code works with the rounded number (or with \<open>Infinity\<close>), so what is stated
  about the number read is stated for magnitudes up to \<open>2^53\<close> only.
\<close>

definition parseInt :: "js_string \<Rightarrow> int option" where
  "parseInt string =
     (let S = dropWhile isWhiteSpace string;
          (sign, S1) = (case S of
                          [] \<Rightarrow> (1, S)
                        | u # rest \<Rightarrow> if u = 0x2D then (- 1, rest)
                                      else if u = 0x2B then (1, rest) else (1, S));
          (R, S2) = (case S1 of
                       a # b # rest \<Rightarrow> if a = 0x30 \<and> (b = 0x78 \<or> b = 0x58) then (16, rest)
                                         else (10, S1)
                     | _ \<Rightarrow> (10, S1));
          Z = takeWhile (isRadixDigit R) S2
      in if Z = [] then None else Some (sign * int (digitsValue R Z)))"

text \<open>\<open>x || 1\<close> on a number: \<open>NaN\<close> and zero are falsy.\<close>

definition or_one :: "int option \<Rightarrow> int" where
  "or_one x = (case x of None \<Rightarrow> 1 | Some n \<Rightarrow> if n = 0 then 1 else n)"

text \<open>
  The state of \<open>AddItemModal\<close> that \<open>handleSave\<close> reads: the three text fields and the item
  being edited, if any.
\<close>

record form =
  form_name :: js_string
  form_quantity :: js_string
  form_category :: js_string
  editItem :: "grocery_item option"

definition validateForm :: "form \<Rightarrow> bool" where
  "validateForm f \<longleftrightarrow> trim (form_name f) \<noteq> []"

text \<open>
  What \<open>handleSave\<close> ends with: nothing when the form is not valid, the alert of success, or
  the alert of failure (\<open>updateItem\<close> returned \<open>false\<close>, or \<open>addItem\<close> a falsy result, that is
  \<open>null\<close> or 0).
\<close>

datatype save_outcome = NotSaved | Saved | SaveFailed

definition handleSave :: "form \<Rightarrow> world \<Rightarrow> save_outcome \<times> world" where
  "handleSave f w =
     (if \<not> validateForm f then (NotSaved, w)
      else
        let quantityNum = or_one (parseInt (form_quantity f)) in
        case editItem f of
          Some item \<Rightarrow>
            (case updateItem (item_id item) (trim (form_name f)) quantityNum
                    (trim (form_category f)) w of
               (success, w') \<Rightarrow> (if success then Saved else SaveFailed, w'))
        | None \<Rightarrow>
            (case addItem (trim (form_name f)) quantityNum (trim (form_category f)) w of
               (result, w') \<Rightarrow>
                 (if result \<noteq> None \<and> result \<noteq> Some 0 then Saved else SaveFailed, w')))"

section \<open>Stores used in the examples\<close>

text \<open>
  \<open>no_failure\<close>: the store raises no error from here on. \<open>fresh_store\<close> is a device at
  first start, before the database file exists; \<open>demo_store\<close> is an open store with three rows.
\<close>

definition no_failure :: "world \<Rightarrow> bool" where
  "no_failure w \<longleftrightarrow> faults w = [] \<and> dbPromise w \<noteq> Some Rejected"

definition fresh_store :: world where
  "fresh_store = \<lparr>db = False, dbPromise = None, tbl = None, seq = 0, web = False,
                   faults = [], clock = (\<lambda>n. 1700000000000 + int n), reads = 0\<rparr>"

definition demo_rows :: "grocery_item list" where
  "demo_rows =
     [\<lparr>item_id = 1, name = ascii ''Tea'', quantity = 1, category = ascii ''Drinks'',
       bought = 1, created_at = 50\<rparr>,
      \<lparr>item_id = 2, name = ascii ''Rice'', quantity = 3, category = [],
       bought = 0, created_at = 70\<rparr>,
      \<lparr>item_id = 4, name = ascii ''Salt'', quantity = 1, category = ascii ''Dry'',
       bought = 0, created_at = 60\<rparr>]"

definition demo_store :: world where
  "demo_store = \<lparr>db = True, dbPromise = Some Fulfilled, tbl = Some demo_rows, seq = 4,
                  web = False, faults = [], clock = (\<lambda>n. 100 + int n), reads = 0\<rparr>"

text \<open>
  \<open>seed_fault_store\<close> is a device at first start on which the fourth call into the SQLite
  library (the first sample insert) throws; \<open>seeded_store\<close> is the fresh store after
  \<open>initDatabase\<close>, and \<open>empty_store\<close> is that store after \<open>clearAllItems\<close>.
\<close>

definition seed_fault_store :: world where
  "seed_fault_store = fresh_store\<lparr>faults := [False, False, False, True]\<rparr>"

definition seeded_store :: world where
  "seeded_store = snd (initDatabase fresh_store)"

definition empty_store :: world where
  "empty_store = snd (clearAllItems seeded_store)"

text \<open>\<open>faulty_store\<close> is the open store on which the next call into the SQLite library throws.\<close>

definition faulty_store :: world where
  "faulty_store = demo_store\<lparr>faults := [True]\<rparr>"

text \<open>
  Three more stores on which an accessor meets a store error. \<open>rejected_store\<close>: the process
  was started on the three rows, the open failed during a read, and the rejected open stays in
  \<open>dbPromise\<close>. \<open>second_call_fault_store\<close>: the process was started on the three rows, the
  open will succeed and the call after it throws. \<open>full_store\<close>: the largest identifier has
  been given out.
\<close>

definition rejected_store :: world where
  "rejected_store = snd (getAllItems ((restart demo_store)\<lparr>faults := [True]\<rparr>))"

definition second_call_fault_store :: world where
  "second_call_fault_store = (restart demo_store)\<lparr>faults := [False, True]\<rparr>"

definition full_store :: world where
  "full_store = demo_store\<lparr>seq := largest_rowid\<rparr>"

text \<open>\<open>milk_form\<close> is the form filled in for a new item, with a given quantity text.\<close>

definition milk_form :: "string \<Rightarrow> form" where
  "milk_form qty = \<lparr>form_name = ascii '' Milk'', form_quantity = ascii qty,
                     form_category = ascii ''Drinks '', editItem = None\<rparr>"

text \<open>
  \<open>same_session\<close>: a step that leaves the module variables and the environment as they were
  (it consumes no scheduled failure when none is left). \<open>connected\<close>: \<open>getDatabase\<close> returns
  without opening the store.
\<close>

definition same_session :: "world \<Rightarrow> world \<Rightarrow> bool" where
  "same_session w w' \<longleftrightarrow>
     db w' = db w \<and> dbPromise w' = dbPromise w \<and> web w' = web w \<and> clock w' = clock w \<and>
     (faults w = [] \<longrightarrow> faults w' = [])"

definition connected :: "world \<Rightarrow> bool" where
  "connected w \<longleftrightarrow> db w \<or> dbPromise w = Some Fulfilled"

section \<open>Properties\<close>

subsection \<open>Auxiliary facts\<close>

lemmas accessor_defs =
  await_def getDatabase_def native_call_def statement_def date_now_def try_bool_def
  execAsync_create_def getFirstAsync_count_def runAsync_insert_def runAsync_update_def
  runAsync_set_bought_def runAsync_delete_def runAsync_delete_bought_def runAsync_delete_all_def
  getAllAsync_select_def max_rowid_def largest_rowid_def
  seedSampleData_def seedSampleData_try_def initDatabase_def initDatabase_try_def
  getAllItems_def getAllItems_try_def addItem_def addItem_try_def
  updateItem_def updateItem_try_def toggleBoughtStatus_def toggleBoughtStatus_try_def
  deleteItem_def deleteItem_try_def deleteAllBoughtItems_def deleteAllBoughtItems_try_def
  clearAllItems_def clearAllItems_try_def

lemmas demo_defs = demo_store_def demo_rows_def fresh_store_def ascii_def sampleItems_def

lemma await_Inr:
  "await m f w = (Inr b, w') \<longleftrightarrow> (\<exists>a w1. m w = (Inr a, w1) \<and> f a w1 = (Inr b, w'))"
  by (auto simp: await_def split: prod.splits sum.splits)

lemma native_call_frame:
  "native_call w = (f, w') \<Longrightarrow>
     tbl w' = tbl w \<and> seq w' = seq w \<and> db w' = db w \<and> dbPromise w' = dbPromise w \<and>
     web w' = web w \<and> clock w' = clock w \<and> reads w' = reads w"
  by (auto simp: native_call_def split: list.splits)

lemma getDatabase_frame:
  "getDatabase w = (r, w') \<Longrightarrow>
     tbl w' = tbl w \<and> seq w' = seq w \<and> web w' = web w \<and> clock w' = clock w \<and> reads w' = reads w"
  by (auto simp: getDatabase_def native_call_def
      split: if_splits option.splits promise.splits list.splits bool.splits)

lemma getDatabase_no_failure:
  assumes "no_failure w"
  shows "\<exists>w1. getDatabase w = (Inr (), w1) \<and> no_failure w1 \<and> tbl w1 = tbl w \<and> seq w1 = seq w
            \<and> clock w1 = clock w \<and> reads w1 = reads w"
  using assms
  by (auto simp: getDatabase_def native_call_def no_failure_def split: option.splits promise.splits)

lemma statement_Inr:
  "statement body w = (Inr a, w') \<longleftrightarrow>
     (\<exists>w1 rows. native_call w = (False, w1) \<and> tbl w = Some rows \<and> body rows w1 = (Inr a, w'))"
  by (auto simp: statement_def split: prod.splits bool.splits option.splits dest: native_call_frame)

lemma statement_no_failure:
  "faults w = [] \<Longrightarrow> tbl w = Some rows \<Longrightarrow> statement body w = body rows w"
  by (simp add: statement_def native_call_def)

lemma try_bool_True:
  "try_bool body w = (True, w') \<longleftrightarrow> body w = (Inr (), w')"
  by (auto simp: try_bool_def split: prod.splits sum.splits)

text \<open>What a successful statement behind \<open>getDatabase\<close> saw and did.\<close>

lemma accessor_statement_Inr:
  assumes "await getDatabase (\<lambda>database. statement body) w = (Inr a, w')"
  shows "\<exists>w1 rows. tbl w = Some rows \<and> tbl w1 = Some rows \<and> seq w1 = seq w \<and>
            clock w1 = clock w \<and> reads w1 = reads w \<and> body rows w1 = (Inr a, w')"
proof -
  from assms obtain w0 where g: "getDatabase w = (Inr (), w0)" and s: "statement body w0 = (Inr a, w')"
    by (auto simp: await_Inr)
  from s obtain w1 rows where n: "native_call w0 = (False, w1)" and t: "tbl w0 = Some rows"
    and b: "body rows w1 = (Inr a, w')"
    by (auto simp: statement_Inr)
  from getDatabase_frame [OF g]
  have f0: "tbl w0 = tbl w" "seq w0 = seq w" "clock w0 = clock w" "reads w0 = reads w"
    by simp_all
  from native_call_frame [OF n]
  have f1: "tbl w1 = tbl w0" "seq w1 = seq w0" "clock w1 = clock w0" "reads w1 = reads w0"
    by simp_all
  have "tbl w = Some rows" using t f0 by simp
  moreover have "tbl w1 = Some rows" using t f1 by simp
  moreover have "seq w1 = seq w" "clock w1 = clock w" "reads w1 = reads w"
    using f0 f1 by simp_all
  ultimately show ?thesis using b by blast
qed

lemma accessor_statement_no_failure:
  assumes "no_failure w" and "tbl w = Some rows"
  shows "\<exists>w1. no_failure w1 \<and> tbl w1 = Some rows \<and> seq w1 = seq w \<and> clock w1 = clock w \<and>
           reads w1 = reads w \<and>
           await getDatabase (\<lambda>database. statement body) w = body rows w1"
proof -
  from getDatabase_no_failure [OF assms(1)] obtain w1 where g: "getDatabase w = (Inr (), w1)"
    and n: "no_failure w1" and f: "tbl w1 = tbl w" "seq w1 = seq w" "clock w1 = clock w"
      "reads w1 = reads w"
    by blast
  from n f assms(2) have "statement body w1 = body rows w1"
    by (simp add: statement_no_failure no_failure_def)
  with g have "await getDatabase (\<lambda>database. statement body) w = body rows w1"
    by (simp add: await_def)
  with n f assms(2) show ?thesis by auto
qed

lemma getAllItems_no_failure:
  assumes "no_failure w" and "tbl w = Some rows"
  shows "\<exists>w'. getAllItems w = (sort_key (\<lambda>r. - created_at r) rows, w') \<and> no_failure w' \<and>
           tbl w' = Some rows \<and> seq w' = seq w"
proof -
  from accessor_statement_no_failure [OF assms] obtain w1 where n: "no_failure w1"
    and t: "tbl w1 = Some rows" "seq w1 = seq w"
    and a: "await getDatabase (\<lambda>database. statement
              (\<lambda>rows w. (Inr (sort_key (\<lambda>r. - created_at r) rows), w))) w
            = (Inr (sort_key (\<lambda>r. - created_at r) rows), w1)"
    by blast
  from a have "getAllItems w = (sort_key (\<lambda>r. - created_at r) rows, w1)"
    by (simp add: getAllItems_def getAllItems_try_def getAllAsync_select_def)
  with n t show ?thesis by blast
qed

lemma toggleBoughtStatus_no_failure:
  assumes "no_failure w" and "tbl w = Some rows"
  shows "\<exists>w'. toggleBoughtStatus i b w = (True, w') \<and> no_failure w' \<and>
           tbl w' = Some (map (\<lambda>r. if item_id r = i then r\<lparr>bought := b\<rparr> else r) rows) \<and>
           seq w' = seq w"
proof -
  from accessor_statement_no_failure [OF assms] obtain w1 where n: "no_failure w1"
    and t: "tbl w1 = Some rows" "seq w1 = seq w"
    and a: "await getDatabase (\<lambda>database. statement (\<lambda>rows w.
              (Inr (), w\<lparr>tbl := Some (map (\<lambda>r. if item_id r = i then r\<lparr>bought := b\<rparr> else r) rows)\<rparr>))) w
            = (Inr (), w1\<lparr>tbl := Some (map (\<lambda>r. if item_id r = i then r\<lparr>bought := b\<rparr> else r) rows)\<rparr>)"
    by blast
  let ?w' = "w1\<lparr>tbl := Some (map (\<lambda>r. if item_id r = i then r\<lparr>bought := b\<rparr> else r) rows)\<rparr>"
  from a have "toggleBoughtStatus i b w = (True, ?w')"
    by (simp add: toggleBoughtStatus_def toggleBoughtStatus_try_def runAsync_set_bought_def
        try_bool_def)
  moreover from n have "no_failure ?w'" by (simp add: no_failure_def)
  moreover from t have "tbl ?w' = Some (map (\<lambda>r. if item_id r = i then r\<lparr>bought := b\<rparr> else r) rows)"
    "seq ?w' = seq w" by simp_all
  ultimately show ?thesis by blast
qed

lemma deleteAllBoughtItems_no_failure:
  assumes "no_failure w" and "tbl w = Some rows"
  shows "\<exists>w'. deleteAllBoughtItems w = (True, w') \<and> no_failure w' \<and>
           tbl w' = Some (filter (\<lambda>r. bought r \<noteq> 1) rows) \<and> seq w' = seq w"
proof -
  from accessor_statement_no_failure [OF assms] obtain w1 where n: "no_failure w1"
    and t: "tbl w1 = Some rows" "seq w1 = seq w"
    and a: "await getDatabase (\<lambda>database. statement (\<lambda>rows w.
              (Inr (), w\<lparr>tbl := Some (filter (\<lambda>r. bought r \<noteq> 1) rows)\<rparr>))) w
            = (Inr (), w1\<lparr>tbl := Some (filter (\<lambda>r. bought r \<noteq> 1) rows)\<rparr>)"
    by blast
  let ?w' = "w1\<lparr>tbl := Some (filter (\<lambda>r. bought r \<noteq> 1) rows)\<rparr>"
  from a have "deleteAllBoughtItems w = (True, ?w')"
    by (simp add: deleteAllBoughtItems_def deleteAllBoughtItems_try_def runAsync_delete_bought_def
        try_bool_def)
  moreover from n have "no_failure ?w'" by (simp add: no_failure_def)
  moreover from t have "tbl ?w' = Some (filter (\<lambda>r. bought r \<noteq> 1) rows)" "seq ?w' = seq w"
    by simp_all
  ultimately show ?thesis by blast
qed

lemma sorted_desc_sort_key:
  "sorted_wrt (\<lambda>a b. created_at b \<le> created_at a) (sort_key (\<lambda>r. - created_at r) rows)"
proof -
  have "sorted (map (\<lambda>r. - created_at r) (sort_key (\<lambda>r. - created_at r) rows))"
    by (rule sorted_sort_key)
  then show ?thesis by (simp add: sorted_map)
qed

subsection \<open>Reading the list\<close>

lemma getAllItems_try_Inr:
  assumes "getAllItems_try w = (Inr xs, w')"
  shows "getAllItems w = (xs, w') \<and>
         (\<exists>rows. tbl w = Some rows \<and> tbl w' = Some rows \<and> mset xs = mset rows \<and>
                  sorted_wrt (\<lambda>a b. created_at b \<le> created_at a) xs)"
proof -
  from assms obtain w1 rows where t: "tbl w = Some rows" and t1: "tbl w1 = Some rows"
    and b: "(Inr (sort_key (\<lambda>r. - created_at r) rows), w1) = (Inr xs, w')"
    unfolding getAllItems_try_def getAllAsync_select_def
    by (blast dest: accessor_statement_Inr)
  from b have xs: "xs = sort_key (\<lambda>r. - created_at r) rows" and w': "w' = w1" by auto
  have "getAllItems w = (xs, w')" using assms by (simp add: getAllItems_def)
  moreover have "mset xs = mset rows" by (simp add: xs)
  moreover have "sorted_wrt (\<lambda>a b. created_at b \<le> created_at a) xs"
    unfolding xs by (rule sorted_desc_sort_key)
  ultimately show ?thesis using t t1 w' by blast
qed

text \<open>
  Claim C5: when the read does not fail, \<open>getAllItems\<close> returns every stored row, none
  omitted, duplicated or altered (the result is a permutation of the table), ordered by
  \<open>created_at\<close> descending, and the table is left as it was. When no store error occurs and
  the table exists, the read does not fail.
\<close>

theorem getAllItems_all_rows_newest_first:
  "(getAllItems_try w = (Inr xs, w') \<longrightarrow>
      getAllItems w = (xs, w') \<and>
      (\<exists>rows. tbl w = Some rows \<and> tbl w' = Some rows \<and> mset xs = mset rows \<and>
               sorted_wrt (\<lambda>a b. created_at b \<le> created_at a) xs)) \<and>
   (no_failure w \<and> tbl w = Some rows0 \<longrightarrow>
      (\<exists>ys w1. getAllItems w = (ys, w1) \<and> mset ys = mset rows0 \<and>
                 sorted_wrt (\<lambda>a b. created_at b \<le> created_at a) ys \<and> tbl w1 = Some rows0))"
proof (intro conjI impI)
  assume a: "getAllItems_try w = (Inr xs, w')"
  from getAllItems_try_Inr [OF a] show "getAllItems w = (xs, w')" by simp
  from getAllItems_try_Inr [OF a]
  show "\<exists>rows. tbl w = Some rows \<and> tbl w' = Some rows \<and> mset xs = mset rows \<and>
               sorted_wrt (\<lambda>a b. created_at b \<le> created_at a) xs" by simp
next
  assume "no_failure w \<and> tbl w = Some rows0"
  then have "no_failure w" "tbl w = Some rows0" by simp_all
  from getAllItems_no_failure [OF this] obtain w1
    where g: "getAllItems w = (sort_key (\<lambda>r. - created_at r) rows0, w1)" and t: "tbl w1 = Some rows0"
    by blast
  have "mset (sort_key (\<lambda>r. - created_at r) rows0) = mset rows0" by simp
  with g t sorted_desc_sort_key [of rows0]
  show "\<exists>ys w1. getAllItems w = (ys, w1) \<and> mset ys = mset rows0 \<and>
                 sorted_wrt (\<lambda>a b. created_at b \<le> created_at a) ys \<and> tbl w1 = Some rows0"
    by blast
qed

theorem getAllItems_all_rows_newest_first_witness:
  "getAllItems_try demo_store = (Inr [demo_rows ! 1, demo_rows ! 2, demo_rows ! 0], demo_store) \<and>
   (no_failure demo_store \<and> tbl demo_store = Some demo_rows) \<and>
   getAllItems demo_store = ([demo_rows ! 1, demo_rows ! 2, demo_rows ! 0], demo_store) \<and>
   map created_at demo_rows = [50, 70, 60] \<and>
   map created_at [demo_rows ! 1, demo_rows ! 2, demo_rows ! 0] = [70, 60, 50] \<and>
   (\<exists>rows. tbl demo_store = Some rows \<and> tbl demo_store = Some rows \<and>
      mset [demo_rows ! 1, demo_rows ! 2, demo_rows ! 0] = mset rows \<and>
      sorted_wrt (\<lambda>a b. created_at b \<le> created_at a) [demo_rows ! 1, demo_rows ! 2, demo_rows ! 0]) \<and>
   (\<exists>ys w1. getAllItems demo_store = (ys, w1) \<and> mset ys = mset demo_rows \<and>
      sorted_wrt (\<lambda>a b. created_at b \<le> created_at a) ys \<and> tbl w1 = Some demo_rows)"
proof -
  have h: "getAllItems_try demo_store = (Inr [demo_rows ! 1, demo_rows ! 2, demo_rows ! 0], demo_store)"
    by (simp add: accessor_defs demo_defs)
  have n: "no_failure demo_store \<and> tbl demo_store = Some demo_rows"
    by (simp add: no_failure_def demo_store_def)
  have c: "map created_at demo_rows = [50, 70, 60]"
    "map created_at [demo_rows ! 1, demo_rows ! 2, demo_rows ! 0] = [70, 60, 50]"
    by (simp_all add: demo_defs)
  note th = getAllItems_all_rows_newest_first [where w = demo_store and w' = demo_store
      and xs = "[demo_rows ! 1, demo_rows ! 2, demo_rows ! 0]" and ?rows0.0 = demo_rows]
  note e1 = th [THEN conjunct1, THEN mp, OF h]
  note e2 = th [THEN conjunct2, THEN mp, OF n]
  show ?thesis
    by (rule conjI [OF h conjI [OF n conjI [OF e1 [THEN conjunct1] conjI [OF c(1) conjI [OF c(2)
          conjI [OF e1 [THEN conjunct2] e2]]]]]])
qed

subsection \<open>Removing the bought rows\<close>

lemma deleteAllBoughtItems_True:
  assumes "deleteAllBoughtItems w = (True, w')"
  shows "\<exists>rows rows'. tbl w = Some rows \<and> tbl w' = Some rows' \<and>
           (\<forall>r \<in> set rows'. bought r \<noteq> 1) \<and>
           mset rows' = filter_mset (\<lambda>r. bought r \<noteq> 1) (mset rows) \<and>
           (\<forall>r \<in> set rows. bought r = 0 \<longrightarrow> r \<in> set rows') \<and>
           rows' = filter (\<lambda>r. bought r \<noteq> 1) rows"
proof -
  from assms obtain w1 rows where t: "tbl w = Some rows"
    and b: "(Inr (), w1\<lparr>tbl := Some (filter (\<lambda>r. bought r \<noteq> 1) rows)\<rparr>) = (Inr (), w')"
    unfolding deleteAllBoughtItems_def deleteAllBoughtItems_try_def runAsync_delete_bought_def
      try_bool_True
    by (blast dest: accessor_statement_Inr)
  from b have t': "tbl w' = Some (filter (\<lambda>r. bought r \<noteq> 1) rows)" by auto
  show ?thesis
    by (intro exI [of _ rows] exI [of _ "filter (\<lambda>r. bought r \<noteq> 1) rows"] conjI)
      (simp_all add: t t')
qed

text \<open>
  Claim C8: when \<open>deleteAllBoughtItems\<close> succeeds, the table holds exactly the rows whose
  \<open>bought\<close> flag is not 1, in their order and unchanged: no row with \<open>bought = 1\<close> remains,
  and every row with \<open>bought = 0\<close> is still there. When no store error occurs and the table
  exists, it succeeds.
\<close>

theorem deleteAllBoughtItems_all_and_only_bought:
  "(deleteAllBoughtItems w = (True, w') \<longrightarrow>
      (\<exists>rows rows'. tbl w = Some rows \<and> tbl w' = Some rows' \<and>
         (\<forall>r \<in> set rows'. bought r \<noteq> 1) \<and>
         mset rows' = filter_mset (\<lambda>r. bought r \<noteq> 1) (mset rows) \<and>
         (\<forall>r \<in> set rows. bought r = 0 \<longrightarrow> r \<in> set rows') \<and>
         rows' = filter (\<lambda>r. bought r \<noteq> 1) rows)) \<and>
   (no_failure w \<and> tbl w = Some rows0 \<longrightarrow>
      (\<exists>w1. deleteAllBoughtItems w = (True, w1) \<and>
            tbl w1 = Some (filter (\<lambda>r. bought r \<noteq> 1) rows0)))"
proof (intro conjI impI)
  assume "deleteAllBoughtItems w = (True, w')"
  then show "\<exists>rows rows'. tbl w = Some rows \<and> tbl w' = Some rows' \<and>
         (\<forall>r \<in> set rows'. bought r \<noteq> 1) \<and>
         mset rows' = filter_mset (\<lambda>r. bought r \<noteq> 1) (mset rows) \<and>
         (\<forall>r \<in> set rows. bought r = 0 \<longrightarrow> r \<in> set rows') \<and>
         rows' = filter (\<lambda>r. bought r \<noteq> 1) rows"
    by (rule deleteAllBoughtItems_True)
next
  assume "no_failure w \<and> tbl w = Some rows0"
  then have "no_failure w" "tbl w = Some rows0" by simp_all
  from deleteAllBoughtItems_no_failure [OF this]
  show "\<exists>w1. deleteAllBoughtItems w = (True, w1) \<and>
            tbl w1 = Some (filter (\<lambda>r. bought r \<noteq> 1) rows0)"
    by blast
qed

theorem deleteAllBoughtItems_all_and_only_bought_witness:
  "deleteAllBoughtItems demo_store = (True, demo_store\<lparr>tbl := Some [demo_rows ! 1, demo_rows ! 2]\<rparr>) \<and>
   (no_failure demo_store \<and> tbl demo_store = Some demo_rows) \<and>
   map bought demo_rows = [1, 0, 0] \<and>
   filter (\<lambda>r. bought r \<noteq> 1) demo_rows = [demo_rows ! 1, demo_rows ! 2] \<and>
   (\<exists>w1. deleteAllBoughtItems demo_store = (True, w1) \<and>
          tbl w1 = Some (filter (\<lambda>r. bought r \<noteq> 1) demo_rows))"
proof -
  have h: "deleteAllBoughtItems demo_store
             = (True, demo_store\<lparr>tbl := Some [demo_rows ! 1, demo_rows ! 2]\<rparr>)"
    by (simp add: accessor_defs demo_defs)
  have n: "no_failure demo_store \<and> tbl demo_store = Some demo_rows"
    by (simp add: no_failure_def demo_store_def)
  note th = deleteAllBoughtItems_all_and_only_bought [where w = demo_store
      and w' = "demo_store\<lparr>tbl := Some [demo_rows ! 1, demo_rows ! 2]\<rparr>" and ?rows0.0 = demo_rows]
  from th [THEN conjunct1, THEN mp, OF h]
  obtain rows rows' where r: "tbl demo_store = Some rows"
    and r': "tbl (demo_store\<lparr>tbl := Some [demo_rows ! 1, demo_rows ! 2]\<rparr>) = Some rows'"
    and p3: "rows' = filter (\<lambda>r. bought r \<noteq> 1) rows"
    by blast
  from r have rows: "rows = demo_rows" by (simp add: demo_store_def)
  from r' have rows': "rows' = [demo_rows ! 1, demo_rows ! 2]" by simp
  have b: "map bought demo_rows = [1, 0, 0]" by (simp add: demo_rows_def)
  from p3 have f: "filter (\<lambda>r. bought r \<noteq> 1) demo_rows = [demo_rows ! 1, demo_rows ! 2]"
    unfolding rows rows' by simp
  note e2 = th [THEN conjunct2, THEN mp, OF n]
  show ?thesis
    by (rule conjI [OF h conjI [OF n conjI [OF b conjI [OF f e2]]]])
qed

subsection \<open>Toggling the bought flag\<close>

lemma toggleBoughtStatus_True:
  assumes "toggleBoughtStatus i b w = (True, w')"
  shows "\<exists>rows. tbl w = Some rows \<and> seq w' = seq w \<and>
           tbl w' = Some (map (\<lambda>r. if item_id r = i then r\<lparr>bought := b\<rparr> else r) rows)"
proof -
  have a: "await getDatabase (\<lambda>database. statement (\<lambda>rows w.
             (Inr (), w\<lparr>tbl := Some (map (\<lambda>r. if item_id r = i then r\<lparr>bought := b\<rparr> else r) rows)\<rparr>))) w
           = (Inr (), w')"
    using assms
    unfolding toggleBoughtStatus_def toggleBoughtStatus_try_def runAsync_set_bought_def try_bool_True .
  from accessor_statement_Inr [OF a] obtain w1 rows where t: "tbl w = Some rows" and s: "seq w1 = seq w"
    and b: "(Inr (), w1\<lparr>tbl := Some (map (\<lambda>r. if item_id r = i then r\<lparr>bought := b\<rparr> else r) rows)\<rparr>)
              = (Inr (), w')"
    by blast
  from b have w': "w' = w1\<lparr>tbl := Some (map (\<lambda>r. if item_id r = i then r\<lparr>bought := b\<rparr> else r) rows)\<rparr>"
    by simp
  show ?thesis using t s by (simp add: w')
qed

lemma set_bought_all:
  "\<forall>r \<in> set (map (\<lambda>r. if item_id r = i then r\<lparr>bought := b\<rparr> else r) rows).
      item_id r = i \<longrightarrow> bought r = b"
proof
  fix r
  assume "r \<in> set (map (\<lambda>r. if item_id r = i then r\<lparr>bought := b\<rparr> else r) rows)"
  then obtain r0 where "r = (if item_id r0 = i then r0\<lparr>bought := b\<rparr> else r0)"
    by (auto simp only: set_map image_iff)
  then show "item_id r = i \<longrightarrow> bought r = b"
    by (cases "item_id r0 = i") simp_all
qed

lemma set_bought_round_trip:
  assumes "\<forall>r \<in> set rows. item_id r = i \<longrightarrow> bought r = 0"
  shows "map (\<lambda>r. if item_id r = i then r\<lparr>bought := 0\<rparr> else r)
          (map (\<lambda>r. if item_id r = i then r\<lparr>bought := 1\<rparr> else r) rows) = rows"
  using assms
proof (induction rows)
  case Nil
  then show ?case by simp
next
  case (Cons r rows)
  then have "item_id r = i \<Longrightarrow> r\<lparr>bought := 0\<rparr> = r" by simp
  with Cons show ?case by simp
qed

lemma toggleBoughtStatus_there_and_back:
  assumes t1: "toggleBoughtStatus i 1 w = (True, w1)"
    and t2: "toggleBoughtStatus i 0 w1 = (True, w2)"
    and prior: "\<forall>rows. tbl w = Some rows \<longrightarrow> (\<forall>r \<in> set rows. item_id r = i \<longrightarrow> bought r = 0)"
  shows "tbl w2 = tbl w \<and> seq w2 = seq w \<and>
         (\<exists>rows1. tbl w1 = Some rows1 \<and> (\<forall>r \<in> set rows1. item_id r = i \<longrightarrow> bought r = 1))"
proof -
  from toggleBoughtStatus_True [OF t1] obtain rows where r: "tbl w = Some rows"
    and s1: "seq w1 = seq w"
    and r1: "tbl w1 = Some (map (\<lambda>r. if item_id r = i then r\<lparr>bought := 1\<rparr> else r) rows)"
    by blast
  from toggleBoughtStatus_True [OF t2] obtain rows1 where r1': "tbl w1 = Some rows1"
    and s2: "seq w2 = seq w1"
    and r2: "tbl w2 = Some (map (\<lambda>r. if item_id r = i then r\<lparr>bought := 0\<rparr> else r) rows1)"
    by blast
  from r1 r1' have rows1: "rows1 = map (\<lambda>r. if item_id r = i then r\<lparr>bought := 1\<rparr> else r) rows"
    by simp
  from prior r have p: "\<forall>r \<in> set rows. item_id r = i \<longrightarrow> bought r = 0" by blast
  have a: "tbl w2 = tbl w" unfolding r2 rows1 r by (simp only: set_bought_round_trip [OF p])
  have b: "seq w2 = seq w" using s1 s2 by simp
  have "\<forall>r \<in> set rows1. item_id r = i \<longrightarrow> bought r = 1"
    unfolding rows1 by (rule set_bought_all)
  with r1' have c: "\<exists>rows1. tbl w1 = Some rows1 \<and> (\<forall>r \<in> set rows1. item_id r = i \<longrightarrow> bought r = 1)"
    by (intro exI [of _ rows1] conjI)
  show ?thesis by (intro conjI a b c)
qed

text \<open>
  Claim C7: for an item whose \<open>bought\<close> flag is 0, \<open>toggleBoughtStatus i 1\<close> followed by
  \<open>toggleBoughtStatus i 0\<close> (both succeeding) leaves the whole table, row by row and field by
  field, as it was; in between the item's flag is 1. When no store error occurs and the table
  exists, both calls succeed.
\<close>

theorem toggleBoughtStatus_round_trip:
  "(toggleBoughtStatus i 1 w = (True, w1) \<and> toggleBoughtStatus i 0 w1 = (True, w2) \<and>
    (\<forall>rows. tbl w = Some rows \<longrightarrow> (\<forall>r \<in> set rows. item_id r = i \<longrightarrow> bought r = 0)) \<longrightarrow>
      tbl w2 = tbl w \<and> seq w2 = seq w \<and>
      (\<exists>rows1. tbl w1 = Some rows1 \<and> (\<forall>r \<in> set rows1. item_id r = i \<longrightarrow> bought r = 1))) \<and>
   (no_failure w \<and> tbl w = Some rows0 \<longrightarrow>
      (\<exists>v1 v2. toggleBoughtStatus i 1 w = (True, v1) \<and> toggleBoughtStatus i 0 v1 = (True, v2)))"
proof (intro conjI impI)
  assume a: "toggleBoughtStatus i 1 w = (True, w1) \<and> toggleBoughtStatus i 0 w1 = (True, w2) \<and>
    (\<forall>rows. tbl w = Some rows \<longrightarrow> (\<forall>r \<in> set rows. item_id r = i \<longrightarrow> bought r = 0))"
  then have t1: "toggleBoughtStatus i 1 w = (True, w1)"
    and t2: "toggleBoughtStatus i 0 w1 = (True, w2)"
    and p: "\<forall>rows. tbl w = Some rows \<longrightarrow> (\<forall>r \<in> set rows. item_id r = i \<longrightarrow> bought r = 0)"
    by simp_all
  note r = toggleBoughtStatus_there_and_back [OF t1 t2 p]
  from r show "tbl w2 = tbl w" by (rule conjunct1)
  from r show "seq w2 = seq w" by (rule conjunct1 [OF conjunct2])
  from r show "\<exists>rows1. tbl w1 = Some rows1 \<and> (\<forall>r \<in> set rows1. item_id r = i \<longrightarrow> bought r = 1)"
    by (rule conjunct2 [OF conjunct2])
next
  assume "no_failure w \<and> tbl w = Some rows0"
  then have n: "no_failure w" and t: "tbl w = Some rows0" by simp_all
  from toggleBoughtStatus_no_failure [OF n t, of i 1] obtain v1
    where a1: "toggleBoughtStatus i 1 w = (True, v1)" and n1: "no_failure v1"
      and t1: "tbl v1 = Some (map (\<lambda>r. if item_id r = i then r\<lparr>bought := 1\<rparr> else r) rows0)"
    by blast
  from toggleBoughtStatus_no_failure [OF n1 t1, of i 0] obtain v2
    where a2: "toggleBoughtStatus i 0 v1 = (True, v2)"
    by blast
  from a1 a2 show "\<exists>v1 v2. toggleBoughtStatus i 1 w = (True, v1) \<and> toggleBoughtStatus i 0 v1 = (True, v2)"
    by blast
qed

theorem toggleBoughtStatus_round_trip_witness:
  "toggleBoughtStatus 2 1 demo_store
     = (True, demo_store\<lparr>tbl := Some [demo_rows ! 0, (demo_rows ! 1)\<lparr>bought := 1\<rparr>, demo_rows ! 2]\<rparr>) \<and>
   toggleBoughtStatus 2 0
       (demo_store\<lparr>tbl := Some [demo_rows ! 0, (demo_rows ! 1)\<lparr>bought := 1\<rparr>, demo_rows ! 2]\<rparr>)
     = (True, demo_store) \<and>
   (no_failure demo_store \<and> tbl demo_store = Some demo_rows) \<and>
   (map item_id demo_rows = [1, 2, 4] \<and> map bought demo_rows = [1, 0, 0]) \<and>
   (tbl demo_store = tbl demo_store \<and> seq demo_store = seq demo_store \<and>
    (\<exists>rows1. tbl (demo_store\<lparr>tbl := Some [demo_rows ! 0, (demo_rows ! 1)\<lparr>bought := 1\<rparr>,
                                               demo_rows ! 2]\<rparr>) = Some rows1 \<and>
              (\<forall>r \<in> set rows1. item_id r = 2 \<longrightarrow> bought r = 1))) \<and>
   (\<exists>v1 v2. toggleBoughtStatus 2 1 demo_store = (True, v1) \<and>
             toggleBoughtStatus 2 0 v1 = (True, v2))"
proof -
  have h1: "toggleBoughtStatus 2 1 demo_store
     = (True, demo_store\<lparr>tbl := Some [demo_rows ! 0, (demo_rows ! 1)\<lparr>bought := 1\<rparr>, demo_rows ! 2]\<rparr>)"
    by (simp add: accessor_defs demo_defs)
  have h2: "toggleBoughtStatus 2 0
       (demo_store\<lparr>tbl := Some [demo_rows ! 0, (demo_rows ! 1)\<lparr>bought := 1\<rparr>, demo_rows ! 2]\<rparr>)
     = (True, demo_store)"
    by (simp add: accessor_defs demo_defs)
  have h3: "\<forall>rows. tbl demo_store = Some rows \<longrightarrow> (\<forall>r \<in> set rows. item_id r = 2 \<longrightarrow> bought r = 0)"
    by (simp add: demo_defs)
  have n: "no_failure demo_store \<and> tbl demo_store = Some demo_rows"
    by (simp add: no_failure_def demo_store_def)
  have c: "map item_id demo_rows = [1, 2, 4] \<and> map bought demo_rows = [1, 0, 0]"
    by (simp add: demo_defs)
  note th = toggleBoughtStatus_round_trip [where i = 2 and w = demo_store
      and ?w1.0 = "demo_store\<lparr>tbl := Some [demo_rows ! 0, (demo_rows ! 1)\<lparr>bought := 1\<rparr>,
                                          demo_rows ! 2]\<rparr>"
      and ?w2.0 = demo_store and ?rows0.0 = demo_rows]
  note e1 = th [THEN conjunct1, THEN mp, OF conjI [OF h1 conjI [OF h2 h3]]]
  note e2 = th [THEN conjunct2, THEN mp, OF n]
  show ?thesis
    by (rule conjI [OF h1 conjI [OF h2 conjI [OF n conjI [OF c conjI [OF e1 e2]]]]])
qed

subsection \<open>Adding a row\<close>

lemma statement_Inl:
  assumes "statement body w = (Inl e, w')"
    and "\<And>rows w1 w2. tbl w1 = tbl w \<Longrightarrow> seq w1 = seq w \<Longrightarrow> body rows w1 = (Inl e, w2)
            \<Longrightarrow> tbl w2 = tbl w1 \<and> seq w2 = seq w1"
  shows "tbl w' = tbl w \<and> seq w' = seq w"
proof (cases "native_call w")
  case (Pair f w1)
  note n = native_call_frame [OF Pair]
  show ?thesis
  proof (cases f)
    case True
    with assms(1) Pair have "w' = w1" by (simp add: statement_def)
    with n show ?thesis by simp
  next
    case False
    show ?thesis
    proof (cases "tbl w1")
      case None
      with assms(1) Pair False have "w' = w1" by (simp add: statement_def)
      with n show ?thesis by simp
    next
      case (Some rows)
      with assms(1) Pair False have "body rows w1 = (Inl e, w')" by (simp add: statement_def)
      from assms(2) [OF _ _ this] n show ?thesis by simp
    qed
  qed
qed

lemma max_rowid_ge:
  "r \<in> set rows \<Longrightarrow> item_id r \<le> max_rowid rows"
proof -
  have "\<And>a. x \<in> set xs \<Longrightarrow> x \<le> fold max xs (a::int)" for x xs
  proof (induction xs)
    case Nil
    then show ?case by simp
  next
    case (Cons y ys)
    have mono: "\<And>a b. a \<le> b \<Longrightarrow> fold max ys (a::int) \<le> fold max ys b"
      by (induction ys) (simp_all add: max.mono)
    have ge: "\<And>a. (a::int) \<le> fold max ys a"
    proof (induction ys)
      case Nil
      show ?case by simp
    next
      case (Cons z zs)
      have "a \<le> max z a" by simp
      also have "\<dots> \<le> fold max zs (max z a)" by (rule Cons.IH)
      finally show ?case by simp
    qed
    show ?case
    proof (cases "x = y")
      case True
      have "y \<le> max y a" by simp
      also have "\<dots> \<le> fold max ys (max y a)" by (rule ge)
      finally show ?thesis using True by simp
    next
      case False
      with Cons.prems have "x \<in> set ys" by simp
      from Cons.IH [OF this] show ?thesis by simp
    qed
  qed
  then show "r \<in> set rows \<Longrightarrow> item_id r \<le> max_rowid rows"
    unfolding max_rowid_def by (metis imageI set_map)
qed

lemma runAsync_insert_Inr:
  assumes "runAsync_insert nm q c t w = (Inr rid, w')"
  shows "\<exists>rows. tbl w = Some rows \<and> rid = max (max_rowid rows) (seq w) + 1 \<and>
           rid \<le> largest_rowid \<and>
           tbl w' = Some (rows @ [\<lparr>item_id = rid, name = nm, quantity = q, category = c,
                                   bought = 0, created_at = t\<rparr>]) \<and>
           seq w' = rid \<and> clock w' = clock w \<and> reads w' = reads w"
proof -
  from assms obtain w1 rows where n: "native_call w = (False, w1)" and t: "tbl w = Some rows"
    and b: "(let rid = max (max_rowid rows) (seq w1) + 1 in
             if rid > largest_rowid then (Inl RowidFull, w1)
             else (Inr rid,
                   w1\<lparr>tbl := Some (rows @ [\<lparr>item_id = rid, name = nm, quantity = q, category = c,
                                            bought = 0, created_at = t\<rparr>]),
                      seq := rid\<rparr>)) = (Inr rid, w')"
    unfolding runAsync_insert_def statement_Inr by blast
  note f = native_call_frame [OF n]
  let ?rid = "max (max_rowid rows) (seq w1) + 1"
  from b have le: "\<not> ?rid > largest_rowid"
    by (auto simp: Let_def split: if_splits)
  have "(Inr ?rid,
                  w1\<lparr>tbl := Some (rows @ [\<lparr>item_id = ?rid, name = nm, quantity = q, category = c,
                                            bought = 0, created_at = t\<rparr>]), seq := ?rid\<rparr>)
                 = (Inr rid :: store_error + int, w')"
    using b unfolding Let_def if_not_P [OF le] .
  then have rid: "?rid = rid"
    and w': "w1\<lparr>tbl := Some (rows @ [\<lparr>item_id = ?rid, name = nm, quantity = q, category = c,
                                            bought = 0, created_at = t\<rparr>]), seq := ?rid\<rparr> = w'"
    by (rule Pair_inject, simp)+
  show ?thesis
    by (rule exI [of _ rows]) (use t rid [symmetric] le f in \<open>simp add: w' [symmetric]\<close>)
qed

lemma runAsync_insert_Inl:
  assumes "runAsync_insert nm q c t w = (Inl e, w')"
  shows "tbl w' = tbl w \<and> seq w' = seq w"
  using assms unfolding runAsync_insert_def
  by (rule statement_Inl) (simp add: Let_def split: if_splits)

lemma runAsync_insert_no_failure:
  assumes "faults w = []" and "tbl w = Some rows"
    and "max (max_rowid rows) (seq w) < largest_rowid"
  shows "runAsync_insert nm q c t w =
           (Inr (max (max_rowid rows) (seq w) + 1),
            w\<lparr>tbl := Some (rows @ [\<lparr>item_id = max (max_rowid rows) (seq w) + 1, name = nm,
                                    quantity = q, category = c, bought = 0, created_at = t\<rparr>]),
              seq := max (max_rowid rows) (seq w) + 1\<rparr>)"
proof -
  from assms(3) have "\<not> max (max_rowid rows) (seq w) + 1 > largest_rowid" by linarith
  with assms(1,2) show ?thesis
    by (simp add: runAsync_insert_def statement_no_failure Let_def del: max_less_iff_conj)
qed


lemma addItem_try_unfold:
  "addItem_try nm q c w =
     (case getDatabase w of
        (Inl e, w0) \<Rightarrow> (Inl e, w0)
      | (Inr u, w0) \<Rightarrow> runAsync_insert nm q c (clock w0 (reads w0)) (w0\<lparr>reads := Suc (reads w0)\<rparr>))"
  by (simp add: addItem_try_def await_def date_now_def split: prod.splits sum.splits)

lemma addItem_Some:
  assumes "addItem nm q c w = (Some i, w')"
  shows "\<exists>rows. tbl w = Some rows \<and>
           tbl w' = Some (rows @ [\<lparr>item_id = i, name = nm, quantity = q, category = c,
                                   bought = 0, created_at = clock w (reads w)\<rparr>]) \<and>
           (\<forall>r \<in> set rows. item_id r < i)"
proof -
  from assms have a: "addItem_try nm q c w = (Inr i, w')"
    by (simp add: addItem_def split: prod.splits sum.splits)
  then obtain w0 where g: "getDatabase w = (Inr (), w0)"
    and ins: "runAsync_insert nm q c (clock w0 (reads w0)) (w0\<lparr>reads := Suc (reads w0)\<rparr>) = (Inr i, w')"
    by (auto simp: addItem_try_unfold split: prod.splits sum.splits)
  note f = getDatabase_frame [OF g]
  from runAsync_insert_Inr [OF ins] obtain rows where t: "tbl w0 = Some rows"
    and i: "i = max (max_rowid rows) (seq w0) + 1"
    and t': "tbl w' = Some (rows @ [\<lparr>item_id = i, name = nm, quantity = q, category = c,
                                     bought = 0, created_at = clock w0 (reads w0)\<rparr>])"
    by auto
  have "\<forall>r \<in> set rows. item_id r < i"
  proof
    fix r assume "r \<in> set rows"
    then have "item_id r \<le> max_rowid rows" by (rule max_rowid_ge)
    with i show "item_id r < i" by linarith
  qed
  with t t' f show ?thesis by simp
qed

lemma addItem_None:
  assumes "addItem nm q c w = (None, w')"
  shows "tbl w' = tbl w \<and> seq w' = seq w"
proof (cases "getDatabase w")
  case (Pair r w0)
  note f = getDatabase_frame [OF Pair]
  show ?thesis
  proof (cases r)
    case (Inl e)
    with assms Pair have "w' = w0"
      by (simp add: addItem_def addItem_try_unfold)
    with f show ?thesis by simp
  next
    case (Inr u)
    with assms Pair obtain e where
      "runAsync_insert nm q c (clock w0 (reads w0)) (w0\<lparr>reads := Suc (reads w0)\<rparr>) = (Inl e, w')"
      by (auto simp: addItem_def addItem_try_unfold split: prod.splits sum.splits)
    from runAsync_insert_Inl [OF this] f show ?thesis by simp
  qed
qed

lemma addItem_no_failure:
  assumes "no_failure w" and "tbl w = Some rows"
    and "max (max_rowid rows) (seq w) < largest_rowid"
  shows "\<exists>w'. addItem nm q c w = (Some (max (max_rowid rows) (seq w) + 1), w') \<and> no_failure w' \<and>
           tbl w' = Some (rows @ [\<lparr>item_id = max (max_rowid rows) (seq w) + 1, name = nm,
                                   quantity = q, category = c, bought = 0,
                                   created_at = clock w (reads w)\<rparr>]) \<and>
           seq w' = max (max_rowid rows) (seq w) + 1 \<and> clock w' = clock w \<and>
           reads w' = Suc (reads w)"
proof -
  from getDatabase_no_failure [OF assms(1)] obtain w0 where g: "getDatabase w = (Inr (), w0)"
    and n: "no_failure w0" and f: "tbl w0 = tbl w" "seq w0 = seq w" "clock w0 = clock w"
      "reads w0 = reads w"
    by blast
  let ?w1 = "w0\<lparr>reads := Suc (reads w0)\<rparr>"
  have "faults ?w1 = []" "tbl ?w1 = Some rows" "max (max_rowid rows) (seq ?w1) < largest_rowid"
    using n f assms by (simp_all add: no_failure_def)
  from runAsync_insert_no_failure [OF this, of nm q c "clock w0 (reads w0)"] f
  have ins: "runAsync_insert nm q c (clock w (reads w)) (w0\<lparr>reads := Suc (reads w)\<rparr>) =
           (Inr (max (max_rowid rows) (seq w) + 1),
            w0\<lparr>reads := Suc (reads w),
               tbl := Some (rows @ [\<lparr>item_id = max (max_rowid rows) (seq w) + 1, name = nm,
                                    quantity = q, category = c, bought = 0,
                                    created_at = clock w (reads w)\<rparr>]),
               seq := max (max_rowid rows) (seq w) + 1\<rparr>)"
    by simp
  show ?thesis
    using n f by (simp add: addItem_def addItem_try_unfold g ins no_failure_def)
qed

text \<open>
  Claim C3: a successful \<open>addItem\<close> appends exactly one row with the given name, quantity and
  category, \<open>bought = 0\<close> and \<open>created_at\<close> the clock reading of the call, under an
  identifier larger than every identifier in the table, which it returns; the rows already
  there are unchanged. A failed \<open>addItem\<close> returns \<open>null\<close> and leaves the table as it
  was. Without a store error, on an existing table below the rowid limit, it succeeds. This
  holds for every name, so also for the names that are non-empty after trimming.
\<close>

theorem addItem_inserts_one_row:
  "(addItem nm q c w = (Some i, w') \<longrightarrow>
      (\<exists>rows. tbl w = Some rows \<and>
         tbl w' = Some (rows @ [\<lparr>item_id = i, name = nm, quantity = q, category = c,
                                 bought = 0, created_at = clock w (reads w)\<rparr>]) \<and>
         (\<forall>r \<in> set rows. item_id r < i))) \<and>
   (addItem nm q c w = (None, w') \<longrightarrow> tbl w' = tbl w) \<and>
   (no_failure w \<and> tbl w = Some rows0 \<and> max (max_rowid rows0) (seq w) < largest_rowid \<longrightarrow>
      (\<exists>j w1. addItem nm q c w = (Some j, w1)))"
proof (intro conjI impI)
  assume "addItem nm q c w = (Some i, w')"
  then show "\<exists>rows. tbl w = Some rows \<and>
         tbl w' = Some (rows @ [\<lparr>item_id = i, name = nm, quantity = q, category = c,
                                 bought = 0, created_at = clock w (reads w)\<rparr>]) \<and>
         (\<forall>r \<in> set rows. item_id r < i)"
    by (rule addItem_Some)
next
  assume "addItem nm q c w = (None, w')"
  then show "tbl w' = tbl w" by (simp add: addItem_None)
next
  assume "no_failure w \<and> tbl w = Some rows0 \<and> max (max_rowid rows0) (seq w) < largest_rowid"
  then have "no_failure w" "tbl w = Some rows0" "max (max_rowid rows0) (seq w) < largest_rowid"
    by simp_all
  from addItem_no_failure [OF this, of nm q c]
  show "\<exists>j w1. addItem nm q c w = (Some j, w1)" by blast
qed

theorem addItem_inserts_one_row_witness:
  "addItem (ascii ''Milk'') 2 (ascii ''Drinks'') demo_store
     = (Some 5, demo_store\<lparr>tbl := Some (demo_rows @ [\<lparr>item_id = 5, name = ascii ''Milk'',
                              quantity = 2, category = ascii ''Drinks'', bought = 0,
                              created_at = 100\<rparr>]), seq := 5, reads := 1\<rparr>) \<and>
   addItem (ascii ''Milk'') 2 (ascii ''Drinks'') (demo_store\<lparr>faults := [True]\<rparr>)
     = (None, demo_store\<lparr>reads := 1\<rparr>) \<and>
   (no_failure demo_store \<and> tbl demo_store = Some demo_rows \<and>
      max (max_rowid demo_rows) (seq demo_store) < largest_rowid) \<and>
   map item_id demo_rows = [1, 2, 4] \<and> clock demo_store (reads demo_store) = 100 \<and>
   (\<exists>j w1. addItem (ascii ''Milk'') 2 (ascii ''Drinks'') demo_store = (Some j, w1)) \<and>
   (\<exists>rows. tbl demo_store = Some rows \<and>
      tbl (demo_store\<lparr>tbl := Some (demo_rows @ [\<lparr>item_id = 5, name = ascii ''Milk'',
                              quantity = 2, category = ascii ''Drinks'', bought = 0,
                              created_at = 100\<rparr>]), seq := 5, reads := 1\<rparr>)
        = Some (rows @ [\<lparr>item_id = 5, name = ascii ''Milk'', quantity = 2,
                         category = ascii ''Drinks'', bought = 0,
                         created_at = clock demo_store (reads demo_store)\<rparr>]) \<and>
      (\<forall>r \<in> set rows. item_id r < 5)) \<and>
   tbl (demo_store\<lparr>reads := 1\<rparr>) = tbl (demo_store\<lparr>faults := [True]\<rparr>)"
proof -
  have h1: "addItem (ascii ''Milk'') 2 (ascii ''Drinks'') demo_store
     = (Some 5, demo_store\<lparr>tbl := Some (demo_rows @ [\<lparr>item_id = 5, name = ascii ''Milk'',
                              quantity = 2, category = ascii ''Drinks'', bought = 0,
                              created_at = 100\<rparr>]), seq := 5, reads := 1\<rparr>)"
    by (simp add: accessor_defs demo_defs)
  have h2: "addItem (ascii ''Milk'') 2 (ascii ''Drinks'') (demo_store\<lparr>faults := [True]\<rparr>)
     = (None, demo_store\<lparr>reads := 1\<rparr>)"
    by (simp add: accessor_defs demo_defs)
  have h3: "no_failure demo_store \<and> tbl demo_store = Some demo_rows \<and>
      max (max_rowid demo_rows) (seq demo_store) < largest_rowid"
    by (simp add: no_failure_def accessor_defs demo_defs)
  have c: "map item_id demo_rows = [1, 2, 4]" "clock demo_store (reads demo_store) = 100"
    by (simp_all add: demo_defs)
  note t1 = addItem_inserts_one_row [of "ascii ''Milk''" 2 "ascii ''Drinks''" demo_store 5
      "demo_store\<lparr>tbl := Some (demo_rows @ [\<lparr>item_id = 5, name = ascii ''Milk'',
                              quantity = 2, category = ascii ''Drinks'', bought = 0,
                              created_at = 100\<rparr>]), seq := 5, reads := 1\<rparr>" demo_rows]
  note t2 = addItem_inserts_one_row [of "ascii ''Milk''" 2 "ascii ''Drinks''"
      "demo_store\<lparr>faults := [True]\<rparr>" 5 "demo_store\<lparr>reads := 1\<rparr>" demo_rows]
  note e1 = mp [OF conjunct1 [OF t1] h1]
  note e2 = mp [OF conjunct1 [OF conjunct2 [OF t2]] h2]
  note e3 = mp [OF conjunct2 [OF conjunct2 [OF t1]] h3]
  show ?thesis
    by (rule conjI [OF h1 conjI [OF h2 conjI [OF h3 conjI [OF c(1) conjI [OF c(2)
          conjI [OF e3 conjI [OF e1 e2]]]]]]])
qed


subsection \<open>Updating a row\<close>

lemma updateItem_True:
  assumes "updateItem i nm q c w = (True, w')"
  shows "\<exists>rows. tbl w = Some rows \<and> seq w' = seq w \<and>
           tbl w' = Some (map (\<lambda>r. if item_id r = i
                                     then r\<lparr>name := nm, quantity := q, category := c\<rparr>
                                     else r) rows)"
proof -
  have a: "await getDatabase (\<lambda>database. statement (\<lambda>rows w.
             (Inr (), w\<lparr>tbl := Some (map (\<lambda>r. if item_id r = i
                                                then r\<lparr>name := nm, quantity := q, category := c\<rparr>
                                                else r) rows)\<rparr>))) w
           = (Inr (), w')"
    using assms
    unfolding updateItem_def updateItem_try_def runAsync_update_def try_bool_True .
  from accessor_statement_Inr [OF a] obtain w1 rows where t: "tbl w = Some rows" and s: "seq w1 = seq w"
    and b: "(Inr (), w1\<lparr>tbl := Some (map (\<lambda>r. if item_id r = i
                                                then r\<lparr>name := nm, quantity := q, category := c\<rparr>
                                                else r) rows)\<rparr>)
              = (Inr (), w')"
    by blast
  from b have w': "w' = w1\<lparr>tbl := Some (map (\<lambda>r. if item_id r = i
                                                then r\<lparr>name := nm, quantity := q, category := c\<rparr>
                                                else r) rows)\<rparr>"
    by simp
  show ?thesis using t s by (simp add: w')
qed

lemma updateItem_no_failure:
  assumes "no_failure w" and "tbl w = Some rows"
  shows "fst (updateItem i nm q c w)"
proof -
  from accessor_statement_no_failure [OF assms] obtain w1 where
    "await getDatabase (\<lambda>database. statement (\<lambda>rows w.
             (Inr (), w\<lparr>tbl := Some (map (\<lambda>r. if item_id r = i
                                                then r\<lparr>name := nm, quantity := q, category := c\<rparr>
                                                else r) rows)\<rparr>))) w
       = (Inr (), w1\<lparr>tbl := Some (map (\<lambda>r. if item_id r = i
                                                then r\<lparr>name := nm, quantity := q, category := c\<rparr>
                                                else r) rows)\<rparr>)"
    by blast
  then show ?thesis
    by (simp add: updateItem_def updateItem_try_def runAsync_update_def try_bool_def)
qed

lemma distinct_at_most_one:
  "distinct (map f xs) \<Longrightarrow> length (filter (\<lambda>x. f x = v) xs) \<le> 1"
proof (induction xs)
  case Nil
  then show ?case by simp
next
  case (Cons x xs)
  show ?case
  proof (cases "f x = v")
    case True
    with Cons.prems have "\<forall>y \<in> set xs. f y \<noteq> v" by (auto simp: image_iff)
    then have "filter (\<lambda>x. f x = v) xs = []" by (simp add: filter_empty_conv)
    with True show ?thesis by simp
  next
    case False
    with Cons show ?thesis by simp
  qed
qed

text \<open>
  Claim C6: a successful \<open>updateItem\<close> keeps the number and order of the rows and every row's
  \<open>id\<close>, \<open>created_at\<close> and \<open>bought\<close>; a row with the given \<open>id\<close> gets the new name, quantity
  and category, and every other row is unchanged. With unique identifiers at most one row has
  the given \<open>id\<close>. When no row has it the table is unchanged, and without a store error the
  call returns \<open>true\<close> whether or not the \<open>id\<close> exists.
\<close>

theorem updateItem_overwrites_only_that_row:
  "(updateItem i nm q c w = (True, w') \<longrightarrow>
      (\<exists>rows rows'. tbl w = Some rows \<and> tbl w' = Some rows' \<and> length rows' = length rows \<and>
         (\<forall>k < length rows.
            item_id (rows' ! k) = item_id (rows ! k) \<and>
            created_at (rows' ! k) = created_at (rows ! k) \<and>
            bought (rows' ! k) = bought (rows ! k) \<and>
            (if item_id (rows ! k) = i
             then name (rows' ! k) = nm \<and> quantity (rows' ! k) = q \<and> category (rows' ! k) = c
             else rows' ! k = rows ! k)) \<and>
         (i \<notin> item_id ` set rows \<longrightarrow> rows' = rows) \<and>
         (distinct (map item_id rows) \<longrightarrow> length (filter (\<lambda>r. item_id r = i) rows) \<le> 1))) \<and>
   (no_failure w \<and> tbl w = Some rows0 \<longrightarrow> fst (updateItem i nm q c w))"
proof (intro conjI impI)
  assume "updateItem i nm q c w = (True, w')"
  from updateItem_True [OF this] obtain rows where t: "tbl w = Some rows"
    and t': "tbl w' = Some (map (\<lambda>r. if item_id r = i
                                     then r\<lparr>name := nm, quantity := q, category := c\<rparr>
                                     else r) rows)"
    by blast
  let ?f = "\<lambda>r. if item_id r = i then r\<lparr>name := nm, quantity := q, category := c\<rparr> else r"
  have p: "\<forall>k < length rows.
            item_id (map ?f rows ! k) = item_id (rows ! k) \<and>
            created_at (map ?f rows ! k) = created_at (rows ! k) \<and>
            bought (map ?f rows ! k) = bought (rows ! k) \<and>
            (if item_id (rows ! k) = i
             then name (map ?f rows ! k) = nm \<and> quantity (map ?f rows ! k) = q \<and>
                  category (map ?f rows ! k) = c
             else map ?f rows ! k = rows ! k)"
    by simp
  have q: "i \<notin> item_id ` set rows \<longrightarrow> map ?f rows = rows"
  proof
    assume "i \<notin> item_id ` set rows"
    then have "\<forall>r \<in> set rows. ?f r = r" by auto
    then show "map ?f rows = rows" by (simp add: map_idI)
  qed
  have d: "distinct (map item_id rows) \<longrightarrow> length (filter (\<lambda>r. item_id r = i) rows) \<le> 1"
    by (rule impI) (rule distinct_at_most_one)
  have l: "length (map ?f rows) = length rows" by simp
  show "\<exists>rows rows'. tbl w = Some rows \<and> tbl w' = Some rows' \<and> length rows' = length rows \<and>
         (\<forall>k < length rows.
            item_id (rows' ! k) = item_id (rows ! k) \<and>
            created_at (rows' ! k) = created_at (rows ! k) \<and>
            bought (rows' ! k) = bought (rows ! k) \<and>
            (if item_id (rows ! k) = i
             then name (rows' ! k) = nm \<and> quantity (rows' ! k) = q \<and> category (rows' ! k) = c
             else rows' ! k = rows ! k)) \<and>
         (i \<notin> item_id ` set rows \<longrightarrow> rows' = rows) \<and>
         (distinct (map item_id rows) \<longrightarrow> length (filter (\<lambda>r. item_id r = i) rows) \<le> 1)"
    by (rule exI [of _ rows], rule exI [of _ "map ?f rows"]) (intro conjI t t' l p q d)
next
  assume "no_failure w \<and> tbl w = Some rows0"
  then show "fst (updateItem i nm q c w)" by (simp add: updateItem_no_failure)
qed

theorem updateItem_overwrites_only_that_row_witness:
  "updateItem 2 (ascii ''Rye'') 5 (ascii ''Dry'') demo_store
     = (True, demo_store\<lparr>tbl := Some [demo_rows ! 0,
          (demo_rows ! 1)\<lparr>name := ascii ''Rye'', quantity := 5, category := ascii ''Dry''\<rparr>,
          demo_rows ! 2]\<rparr>) \<and>
   updateItem 3 (ascii ''Rye'') 5 (ascii ''Dry'') demo_store = (True, demo_store) \<and>
   (no_failure demo_store \<and> tbl demo_store = Some demo_rows) \<and>
   map item_id demo_rows = [1, 2, 4] \<and>
   fst (updateItem 3 (ascii ''Rye'') 5 (ascii ''Dry'') demo_store) \<and>
   (\<exists>rows rows'. tbl demo_store = Some rows \<and>
      tbl (demo_store\<lparr>tbl := Some [demo_rows ! 0,
          (demo_rows ! 1)\<lparr>name := ascii ''Rye'', quantity := 5, category := ascii ''Dry''\<rparr>,
          demo_rows ! 2]\<rparr>) = Some rows' \<and> length rows' = length rows \<and>
      (\<forall>k < length rows.
         item_id (rows' ! k) = item_id (rows ! k) \<and>
         created_at (rows' ! k) = created_at (rows ! k) \<and>
         bought (rows' ! k) = bought (rows ! k) \<and>
         (if item_id (rows ! k) = 2
          then name (rows' ! k) = ascii ''Rye'' \<and> quantity (rows' ! k) = 5 \<and>
               category (rows' ! k) = ascii ''Dry''
          else rows' ! k = rows ! k)) \<and>
      (2 \<notin> item_id ` set rows \<longrightarrow> rows' = rows) \<and>
      (distinct (map item_id rows) \<longrightarrow> length (filter (\<lambda>r. item_id r = 2) rows) \<le> 1))"
proof -
  have h1: "updateItem 2 (ascii ''Rye'') 5 (ascii ''Dry'') demo_store
     = (True, demo_store\<lparr>tbl := Some [demo_rows ! 0,
          (demo_rows ! 1)\<lparr>name := ascii ''Rye'', quantity := 5, category := ascii ''Dry''\<rparr>,
          demo_rows ! 2]\<rparr>)"
    by (simp add: accessor_defs demo_defs)
  have h2: "updateItem 3 (ascii ''Rye'') 5 (ascii ''Dry'') demo_store = (True, demo_store)"
    by (simp add: accessor_defs demo_defs)
  have h3: "no_failure demo_store \<and> tbl demo_store = Some demo_rows"
    by (simp add: no_failure_def demo_store_def)
  have c: "map item_id demo_rows = [1, 2, 4]" by (simp add: demo_defs)
  note t1 = updateItem_overwrites_only_that_row [of 2 "ascii ''Rye''" 5 "ascii ''Dry''" demo_store
      "demo_store\<lparr>tbl := Some [demo_rows ! 0,
          (demo_rows ! 1)\<lparr>name := ascii ''Rye'', quantity := 5, category := ascii ''Dry''\<rparr>,
          demo_rows ! 2]\<rparr>" demo_rows]
  note t2 = updateItem_overwrites_only_that_row [of 3 "ascii ''Rye''" 5 "ascii ''Dry''" demo_store
      demo_store demo_rows]
  note e1 = mp [OF conjunct1 [OF t1] h1]
  note e2 = mp [OF conjunct2 [OF t2] h3]
  show ?thesis
    by (rule conjI [OF h1 conjI [OF h2 conjI [OF h3 conjI [OF c conjI [OF e2 e1]]]]])
qed

subsection \<open>Initialising and seeding\<close>

lemma same_session_refl: "same_session w w"
  by (simp add: same_session_def)


lemma native_call_session: "native_call w = (f, w') \<Longrightarrow> same_session w w'"
  by (cases "faults w") (auto simp: native_call_def same_session_def)








lemma same_session_connected: "same_session w w' \<Longrightarrow> connected w \<Longrightarrow> connected w'"
  by (simp add: same_session_def connected_def)

lemma getDatabase_connected: "connected w \<Longrightarrow> getDatabase w = (Inr (), w)"
  by (cases "db w") (simp_all add: getDatabase_def connected_def)

lemma getDatabase_Inr_connected:
  assumes "getDatabase w = (Inr (), w0)"
  shows "connected w0 \<and> (faults w = [] \<longrightarrow> faults w0 = [])"
proof (cases "connected w")
  case True
  with assms getDatabase_connected [OF True] show ?thesis by simp
next
  case False
  then have d: "\<not> db w" and p: "dbPromise w \<noteq> Some Fulfilled" by (simp_all add: connected_def)
  show ?thesis
  proof (cases "dbPromise w")
    case None
    obtain f w1 where n: "native_call w = (f, w1)" by (cases "native_call w")
    from assms d None n have f: "\<not> f" and w0: "w0 = w1\<lparr>db := True, dbPromise := Some Fulfilled\<rparr>"
      by (cases f; simp add: getDatabase_def)+
    from native_call_session [OF n] w0 show ?thesis by (simp add: connected_def same_session_def)
  next
    case (Some pr)
    with p have "pr = Rejected" by (cases pr) simp_all
    with assms d Some show ?thesis by (simp add: getDatabase_def)
  qed
qed

lemma execAsync_create_Inr:
  assumes "execAsync_create w = (Inr (), w')"
  shows "same_session w w' \<and> seq w' = seq w \<and> reads w' = reads w \<and>
         tbl w' = Some (case tbl w of None \<Rightarrow> [] | Some rows \<Rightarrow> rows)"
proof -
  obtain f w1 where n: "native_call w = (f, w1)" by (cases "native_call w")
  note fr = native_call_session [OF n] native_call_frame [OF n]
  from assms n have f: "\<not> f" by (cases f) (simp_all add: execAsync_create_def)
  show ?thesis
  proof (cases "tbl w1")
    case None
    with assms n f have "w' = w1\<lparr>tbl := Some []\<rparr>" by (simp add: execAsync_create_def)
    with fr None show ?thesis by (simp add: same_session_def)
  next
    case (Some rows)
    with assms n f have w': "w' = w1" by (simp add: execAsync_create_def)
    from fr Some have "tbl w = Some rows" by simp
    with fr w' show ?thesis by simp
  qed
qed

lemma execAsync_create_Inl:
  assumes "execAsync_create w = (Inl e, w')"
  shows "tbl w' = tbl w \<and> seq w' = seq w"
proof -
  obtain f w1 where n: "native_call w = (f, w1)" by (cases "native_call w")
  note fr = native_call_frame [OF n]
  from assms n have "f" by (cases f; cases "tbl w1") (simp_all add: execAsync_create_def)
  with assms n have "w' = w1" by (simp add: execAsync_create_def)
  with fr show ?thesis by simp
qed

lemma getFirstAsync_count_cases:
  assumes "getFirstAsync_count w = (r, w')"
  shows "same_session w w' \<and> tbl w' = tbl w \<and> seq w' = seq w \<and> reads w' = reads w \<and>
         (\<forall>n. r = Inr n \<longrightarrow> (\<exists>rows. tbl w = Some rows \<and> n = int (length rows)))"
proof -
  obtain f w1 where n: "native_call w = (f, w1)" by (cases "native_call w")
  note fr = native_call_session [OF n] native_call_frame [OF n]
  show ?thesis
  proof (cases f)
    case True
    with assms n have "w' = w1" "r = Inl StatementFailed"
      by (simp_all add: getFirstAsync_count_def statement_def)
    with fr show ?thesis by simp
  next
    case False
    show ?thesis
    proof (cases "tbl w1")
      case None
      with assms n False have "w' = w1" "r = Inl NoSuchTable"
        by (simp_all add: getFirstAsync_count_def statement_def)
      with fr show ?thesis by simp
    next
      case (Some rows)
      with assms n False have w': "w' = w1" "r = Inr (int (length rows))"
        by (simp_all add: getFirstAsync_count_def statement_def)
      from fr Some have "tbl w = Some rows" by simp
      with fr w' show ?thesis by simp
    qed
  qed
qed

text \<open>What \<open>seedSampleData\<close> does once the handle is open.\<close>

lemma seedSampleData_connected:
  assumes "connected w"
  shows "seedSampleData w =
           (case getFirstAsync_count w of
              (Inl e, w1) \<Rightarrow> w1
            | (Inr n, w1) \<Rightarrow> if n = 0 then snd (seed_loop sampleItems w1) else w1)"
  by (simp add: seedSampleData_def seedSampleData_try_def await_def getDatabase_connected [OF assms]
      split: prod.splits sum.splits)



lemma seedSampleData_nonempty:
  assumes "connected w" and "tbl w = Some rows" and "rows \<noteq> []"
  shows "tbl (seedSampleData w) = Some rows \<and> seq (seedSampleData w) = seq w"
proof -
  obtain r w1 where c: "getFirstAsync_count w = (r, w1)" by (cases "getFirstAsync_count w")
  note cc = getFirstAsync_count_cases [OF c]
  from cc assms(2) have t1: "tbl w1 = Some rows" "seq w1 = seq w" by simp_all
  show ?thesis
  proof (cases r)
    case (Inl e)
    with t1 show ?thesis by (simp add: seedSampleData_connected [OF assms(1)] c)
  next
    case (Inr n)
    with cc assms(2,3) have "n \<noteq> 0" by auto
    with Inr t1 show ?thesis by (simp add: seedSampleData_connected [OF assms(1)] c)
  qed
qed

lemma seedSampleData_empty_healthy:
  assumes "connected w" and "faults w = []" and "tbl w = Some []"
  shows "seedSampleData w = snd (seed_loop sampleItems w)"
proof -
  from assms(2,3) have "getFirstAsync_count w = (Inr 0, w)"
    by (simp add: getFirstAsync_count_def statement_no_failure)
  then show ?thesis by (simp add: seedSampleData_connected [OF assms(1)])
qed

lemma initDatabase_unfold:
  "initDatabase w =
     (case getDatabase w of
        (Inl e, w0) \<Rightarrow> (False, w0)
      | (Inr u, w0) \<Rightarrow>
          (case execAsync_create w0 of
             (Inl e, wc) \<Rightarrow> (False, wc)
           | (Inr u, wc) \<Rightarrow> (True, seedSampleData wc)))"
  by (simp add: initDatabase_def initDatabase_try_def await_def split: prod.splits sum.splits)

lemma initDatabase_True:
  assumes "initDatabase w = (True, w1)"
  shows "\<exists>w0 wc. getDatabase w = (Inr (), w0) \<and> execAsync_create w0 = (Inr (), wc) \<and>
           w1 = seedSampleData wc \<and> connected wc \<and>
           tbl wc = Some (case tbl w of None \<Rightarrow> [] | Some rows \<Rightarrow> rows) \<and> seq wc = seq w"
proof -
  obtain r w0 where g: "getDatabase w = (r, w0)" by (cases "getDatabase w")
  from assms g have r: "r = Inr ()" by (cases r) (simp_all add: initDatabase_unfold)
  obtain r2 wc where c: "execAsync_create w0 = (r2, wc)" by (cases "execAsync_create w0")
  from assms g r c have r2: "r2 = Inr ()" and w1: "w1 = seedSampleData wc"
    by (cases r2; simp add: initDatabase_unfold)+
  note gf = getDatabase_frame [OF g] getDatabase_Inr_connected [OF g [unfolded r]]
  note cf = execAsync_create_Inr [OF c [unfolded r2]]
  from gf have "connected w0" by simp
  moreover from cf have "same_session w0 wc" by simp
  ultimately have "connected wc" by (simp add: same_session_connected)
  moreover from gf cf have "tbl wc = Some (case tbl w of None \<Rightarrow> [] | Some rows \<Rightarrow> rows)"
    "seq wc = seq w" by simp_all
  ultimately show ?thesis using g r c r2 w1 by simp
qed

lemma initDatabase_no_failure:
  assumes "no_failure w"
  shows "\<exists>wc. initDatabase w = (True, seedSampleData wc) \<and> connected wc \<and> no_failure wc \<and>
           tbl wc = Some (case tbl w of None \<Rightarrow> [] | Some rows \<Rightarrow> rows) \<and> seq wc = seq w \<and>
           clock wc = clock w \<and> reads wc = reads w"
proof -
  from getDatabase_no_failure [OF assms] obtain w0 where g: "getDatabase w = (Inr (), w0)"
    and n: "no_failure w0" and f: "tbl w0 = tbl w" "seq w0 = seq w" "clock w0 = clock w"
      "reads w0 = reads w"
    by blast
  from getDatabase_Inr_connected [OF g] have c0: "connected w0" by simp
  from n have f0: "faults w0 = []" by (simp add: no_failure_def)
  let ?wc = "case tbl w0 of None \<Rightarrow> w0\<lparr>tbl := Some []\<rparr> | Some rows \<Rightarrow> w0"
  from f0 have c: "execAsync_create w0 = (Inr (), ?wc)"
    by (simp add: execAsync_create_def native_call_def split: option.splits)
  have "initDatabase w = (True, seedSampleData ?wc)" by (simp add: initDatabase_unfold g c)
  moreover have "connected ?wc" "no_failure ?wc"
    using c0 n by (simp_all add: connected_def no_failure_def split: option.splits)
  moreover have "tbl ?wc = Some (case tbl w of None \<Rightarrow> [] | Some rows \<Rightarrow> rows)" "seq ?wc = seq w"
    "clock ?wc = clock w" "reads ?wc = reads w"
    using f by (simp_all split: option.splits)
  ultimately show ?thesis by blast
qed






lemma initDatabase_nonempty:
  assumes "tbl w = Some rows" and "rows \<noteq> []"
  shows "tbl (snd (initDatabase w)) = Some rows \<and> seq (snd (initDatabase w)) = seq w"
proof -
  obtain r w0 where g: "getDatabase w = (r, w0)" by (cases "getDatabase w")
  note gf = getDatabase_frame [OF g]
  show ?thesis
  proof (cases r)
    case (Inl e)
    with g gf assms(1) show ?thesis by (simp add: initDatabase_unfold)
  next
    case (Inr u)
    with g have g': "getDatabase w = (Inr (), w0)" by simp
    obtain r2 wc where c: "execAsync_create w0 = (r2, wc)" by (cases "execAsync_create w0")
    show ?thesis
    proof (cases r2)
      case (Inl e)
      with c have "execAsync_create w0 = (Inl e, wc)" by simp
      from execAsync_create_Inl [OF this] gf assms(1) g Inr c Inl show ?thesis
        by (simp add: initDatabase_unfold)
    next
      case r2: (Inr u2)
      with c have c': "execAsync_create w0 = (Inr (), wc)" by simp
      note cf = execAsync_create_Inr [OF c']
      from getDatabase_Inr_connected [OF g'] have "connected w0" by simp
      moreover from cf have "same_session w0 wc" by simp
      ultimately have cc: "connected wc" by (simp add: same_session_connected)
      from cf gf assms(1) have t: "tbl wc = Some rows" and sq: "seq wc = seq w" by simp_all
      from seedSampleData_nonempty [OF cc t assms(2)] g Inr c r2 sq show ?thesis
        by (simp add: initDatabase_unfold)
    qed
  qed
qed







subsection \<open>The sample rows\<close>

lemma seed_loop_samples:
  assumes "faults w = []" and "tbl w = Some []" and "0 \<le> seq w" and "seq w + 3 \<le> largest_rowid"
  shows "tbl (snd (seed_loop sampleItems w)) =
           Some [\<lparr>item_id = seq w + 1, name = [0x53, 0x1EEF, 0x61], quantity = 2,
                   category = [0x110, 0x1ED3, 0x20, 0x75, 0x1ED1, 0x6E, 0x67],
                   bought = 0, created_at = clock w (reads w)\<rparr>,
                 \<lparr>item_id = seq w + 2, name = [0x54, 0x72, 0x1EE9, 0x6E, 0x67], quantity = 10,
                   category = [0x54, 0x68, 0x1EF1, 0x63, 0x20, 0x70, 0x68, 0x1EA9, 0x6D, 0x20,
                               0x74, 0x1B0, 0x1A1, 0x69, 0x20, 0x73, 0x1ED1, 0x6E, 0x67],
                   bought = 0, created_at = clock w (reads w + 1)\<rparr>,
                 \<lparr>item_id = seq w + 3, name = [0x42, 0xE1, 0x6E, 0x68, 0x20, 0x6D, 0xEC],
                   quantity = 1,
                   category = [0x54, 0x68, 0x1EF1, 0x63, 0x20, 0x70, 0x68, 0x1EA9, 0x6D, 0x20,
                               0x6B, 0x68, 0xF4],
                   bought = 0, created_at = clock w (reads w + 2)\<rparr>]"
proof -
  from assms(3,4) have a: "\<not> largest_rowid < seq w + 1" "\<not> largest_rowid < seq w + 2"
    "\<not> largest_rowid < seq w + 3" "max 0 (seq w) = seq w" "max (seq w + 1) 0 = seq w + 1"
    "max (seq w + 2) (seq w + 1) = seq w + 2" "max (seq w + 1) (seq w + 2) = seq w + 2" by simp_all
  show ?thesis
    using assms(1,2) a
    by (simp add: sampleItems_def date_now_def runAsync_insert_def statement_def native_call_def
        Let_def max_rowid_def)
qed


lemma initDatabase_seeds_three:
  assumes "no_failure w" and "tbl w = None \<or> tbl w = Some []"
    and "0 \<le> seq w" and "seq w + 3 \<le> largest_rowid"
  shows "\<exists>w'. initDatabase w = (True, w') \<and> tbl w' = Some [\<lparr>item_id = seq w + 1, name = [0x53, 0x1EEF, 0x61], quantity = 2,
                   category = [0x110, 0x1ED3, 0x20, 0x75, 0x1ED1, 0x6E, 0x67],
                   bought = 0, created_at = clock w (reads w)\<rparr>,
                 \<lparr>item_id = seq w + 2, name = [0x54, 0x72, 0x1EE9, 0x6E, 0x67], quantity = 10,
                   category = [0x54, 0x68, 0x1EF1, 0x63, 0x20, 0x70, 0x68, 0x1EA9, 0x6D, 0x20,
                               0x74, 0x1B0, 0x1A1, 0x69, 0x20, 0x73, 0x1ED1, 0x6E, 0x67],
                   bought = 0, created_at = clock w (reads w + 1)\<rparr>,
                 \<lparr>item_id = seq w + 3, name = [0x42, 0xE1, 0x6E, 0x68, 0x20, 0x6D, 0xEC],
                   quantity = 1,
                   category = [0x54, 0x68, 0x1EF1, 0x63, 0x20, 0x70, 0x68, 0x1EA9, 0x6D, 0x20,
                               0x6B, 0x68, 0xF4],
                   bought = 0, created_at = clock w (reads w + 2)\<rparr>]"
proof -
  from initDatabase_no_failure [OF assms(1)] obtain wc
    where i: "initDatabase w = (True, seedSampleData wc)"
      and c: "connected wc" and n: "no_failure wc"
      and t: "tbl wc = Some (case tbl w of None \<Rightarrow> [] | Some rows \<Rightarrow> rows)"
      and f: "seq wc = seq w" "clock wc = clock w" "reads wc = reads w"
    by blast
  from n have fl: "faults wc = []" by (simp add: no_failure_def)
  from t assms(2) have t0: "tbl wc = Some []" by auto
  from assms(3,4) f have s: "0 \<le> seq wc" "seq wc + 3 \<le> largest_rowid" by simp_all
  have "tbl (seedSampleData wc) = Some [\<lparr>item_id = seq w + 1, name = [0x53, 0x1EEF, 0x61], quantity = 2,
                   category = [0x110, 0x1ED3, 0x20, 0x75, 0x1ED1, 0x6E, 0x67],
                   bought = 0, created_at = clock w (reads w)\<rparr>,
                 \<lparr>item_id = seq w + 2, name = [0x54, 0x72, 0x1EE9, 0x6E, 0x67], quantity = 10,
                   category = [0x54, 0x68, 0x1EF1, 0x63, 0x20, 0x70, 0x68, 0x1EA9, 0x6D, 0x20,
                               0x74, 0x1B0, 0x1A1, 0x69, 0x20, 0x73, 0x1ED1, 0x6E, 0x67],
                   bought = 0, created_at = clock w (reads w + 1)\<rparr>,
                 \<lparr>item_id = seq w + 3, name = [0x42, 0xE1, 0x6E, 0x68, 0x20, 0x6D, 0xEC],
                   quantity = 1,
                   category = [0x54, 0x68, 0x1EF1, 0x63, 0x20, 0x70, 0x68, 0x1EA9, 0x6D, 0x20,
                               0x6B, 0x68, 0xF4],
                   bought = 0, created_at = clock w (reads w + 2)\<rparr>]"
    unfolding seedSampleData_empty_healthy [OF c fl t0] seed_loop_samples [OF fl t0 s]
    by (simp add: f)
  with i show ?thesis by blast
qed

text \<open>
  Claim C10, as amended: when no store error occurs and the table is absent or empty,
  \<open>initDatabase\<close> returns \<open>true\<close> and the table then holds exactly the three sample rows
  (the names and categories are the code units of the literals in the source), each with
  \<open>bought = 0\<close>, the next three identifiers and the three clock readings taken while
  seeding. When the table is non-empty, \<open>initDatabase\<close> leaves its rows as they are, whatever
  else happens.
\<close>

theorem initDatabase_seeds_samples:
  "(no_failure w \<and> (tbl w = None \<or> tbl w = Some []) \<and> 0 \<le> seq w \<and>
      seq w + 3 \<le> largest_rowid \<longrightarrow>
      (\<exists>w'. initDatabase w = (True, w') \<and> tbl w' = Some [\<lparr>item_id = seq w + 1, name = [0x53, 0x1EEF, 0x61], quantity = 2,
                   category = [0x110, 0x1ED3, 0x20, 0x75, 0x1ED1, 0x6E, 0x67],
                   bought = 0, created_at = clock w (reads w)\<rparr>,
                 \<lparr>item_id = seq w + 2, name = [0x54, 0x72, 0x1EE9, 0x6E, 0x67], quantity = 10,
                   category = [0x54, 0x68, 0x1EF1, 0x63, 0x20, 0x70, 0x68, 0x1EA9, 0x6D, 0x20,
                               0x74, 0x1B0, 0x1A1, 0x69, 0x20, 0x73, 0x1ED1, 0x6E, 0x67],
                   bought = 0, created_at = clock w (reads w + 1)\<rparr>,
                 \<lparr>item_id = seq w + 3, name = [0x42, 0xE1, 0x6E, 0x68, 0x20, 0x6D, 0xEC],
                   quantity = 1,
                   category = [0x54, 0x68, 0x1EF1, 0x63, 0x20, 0x70, 0x68, 0x1EA9, 0x6D, 0x20,
                               0x6B, 0x68, 0xF4],
                   bought = 0, created_at = clock w (reads w + 2)\<rparr>])) \<and>
   (tbl w = Some rows \<and> rows \<noteq> [] \<longrightarrow> tbl (snd (initDatabase w)) = Some rows)"
proof (intro conjI impI)
  assume "no_failure w \<and> (tbl w = None \<or> tbl w = Some []) \<and> 0 \<le> seq w \<and>
      seq w + 3 \<le> largest_rowid"
  then have "no_failure w" "tbl w = None \<or> tbl w = Some []" "0 \<le> seq w"
    "seq w + 3 \<le> largest_rowid" by simp_all
  then show "\<exists>w'. initDatabase w = (True, w') \<and> tbl w' = Some [\<lparr>item_id = seq w + 1, name = [0x53, 0x1EEF, 0x61], quantity = 2,
                   category = [0x110, 0x1ED3, 0x20, 0x75, 0x1ED1, 0x6E, 0x67],
                   bought = 0, created_at = clock w (reads w)\<rparr>,
                 \<lparr>item_id = seq w + 2, name = [0x54, 0x72, 0x1EE9, 0x6E, 0x67], quantity = 10,
                   category = [0x54, 0x68, 0x1EF1, 0x63, 0x20, 0x70, 0x68, 0x1EA9, 0x6D, 0x20,
                               0x74, 0x1B0, 0x1A1, 0x69, 0x20, 0x73, 0x1ED1, 0x6E, 0x67],
                   bought = 0, created_at = clock w (reads w + 1)\<rparr>,
                 \<lparr>item_id = seq w + 3, name = [0x42, 0xE1, 0x6E, 0x68, 0x20, 0x6D, 0xEC],
                   quantity = 1,
                   category = [0x54, 0x68, 0x1EF1, 0x63, 0x20, 0x70, 0x68, 0x1EA9, 0x6D, 0x20,
                               0x6B, 0x68, 0xF4],
                   bought = 0, created_at = clock w (reads w + 2)\<rparr>]"
    by (rule initDatabase_seeds_three)
next
  assume "tbl w = Some rows \<and> rows \<noteq> []"
  then have "tbl w = Some rows" "rows \<noteq> []" by simp_all
  then show "tbl (snd (initDatabase w)) = Some rows"
    by (rule initDatabase_nonempty [THEN conjunct1])
qed

text \<open>
  Claim C10 as stated fails: on a fresh store where the first sample insert throws, the error
  is caught inside \<open>seedSampleData\<close>, \<open>initDatabase\<close> returns \<open>true\<close>, and the table is
  empty.
\<close>

theorem initDatabase_success_with_empty_table:
  "tbl seed_fault_store = None \<and> fst (initDatabase seed_fault_store) \<and>
   tbl (snd (initDatabase seed_fault_store)) = Some []"
  by (simp add: seed_fault_store_def accessor_defs demo_defs)

theorem initDatabase_seeds_samples_witness:
  "(no_failure fresh_store \<and> (tbl fresh_store = None \<or> tbl fresh_store = Some []) \<and>
      0 \<le> seq fresh_store \<and> seq fresh_store + 3 \<le> largest_rowid) \<and>
   (tbl demo_store = Some demo_rows \<and> demo_rows \<noteq> []) \<and>
   map item_id (the (tbl (snd (initDatabase fresh_store)))) = [1, 2, 3] \<and>
   map quantity (the (tbl (snd (initDatabase fresh_store)))) = [2, 10, 1] \<and>
   map created_at (the (tbl (snd (initDatabase fresh_store))))
     = [1700000000000, 1700000000001, 1700000000002] \<and>
   tbl (snd (initDatabase demo_store)) = Some demo_rows"
proof -
  have h1: "no_failure fresh_store \<and> (tbl fresh_store = None \<or> tbl fresh_store = Some []) \<and>
      0 \<le> seq fresh_store \<and> seq fresh_store + 3 \<le> largest_rowid"
    by (simp add: no_failure_def fresh_store_def largest_rowid_def)
  have h2: "tbl demo_store = Some demo_rows \<and> demo_rows \<noteq> []"
    by (simp add: demo_store_def demo_rows_def)
  note t1 = initDatabase_seeds_samples [of fresh_store demo_rows]
  note t2 = initDatabase_seeds_samples [of demo_store demo_rows]
  from mp [OF conjunct1 [OF t1] h1] obtain w'
    where i: "initDatabase fresh_store = (True, w')"
      and t: "tbl w' = Some ([\<lparr>item_id = seq fresh_store + 1, name = [0x53, 0x1EEF, 0x61], quantity = 2,
                   category = [0x110, 0x1ED3, 0x20, 0x75, 0x1ED1, 0x6E, 0x67],
                   bought = 0, created_at = clock fresh_store (reads fresh_store)\<rparr>,
                 \<lparr>item_id = seq fresh_store + 2, name = [0x54, 0x72, 0x1EE9, 0x6E, 0x67], quantity = 10,
                   category = [0x54, 0x68, 0x1EF1, 0x63, 0x20, 0x70, 0x68, 0x1EA9, 0x6D, 0x20,
                               0x74, 0x1B0, 0x1A1, 0x69, 0x20, 0x73, 0x1ED1, 0x6E, 0x67],
                   bought = 0, created_at = clock fresh_store (reads fresh_store + 1)\<rparr>,
                 \<lparr>item_id = seq fresh_store + 3, name = [0x42, 0xE1, 0x6E, 0x68, 0x20, 0x6D, 0xEC],
                   quantity = 1,
                   category = [0x54, 0x68, 0x1EF1, 0x63, 0x20, 0x70, 0x68, 0x1EA9, 0x6D, 0x20,
                               0x6B, 0x68, 0xF4],
                   bought = 0, created_at = clock fresh_store (reads fresh_store + 2)\<rparr>])"
    by blast
  from i have w': "snd (initDatabase fresh_store) = w'" by simp
  have c: "map item_id (the (tbl (snd (initDatabase fresh_store)))) = [1, 2, 3]"
    "map quantity (the (tbl (snd (initDatabase fresh_store)))) = [2, 10, 1]"
    "map created_at (the (tbl (snd (initDatabase fresh_store))))
       = [1700000000000, 1700000000001, 1700000000002]"
    unfolding w' t by (simp_all add: fresh_store_def)
  note e2 = mp [OF conjunct2 [OF t2] h2]
  show ?thesis
    by (rule conjI [OF h1 conjI [OF h2 conjI [OF c(1) conjI [OF c(2) conjI [OF c(3) e2]]]]])
qed


subsection \<open>The scenario of adding, marking and removing\<close>

text \<open>
  Claim C1, as amended: on a store whose table exists and is empty, when no store error
  occurs, \<open>addItem "Milk" 2 "Drinks"\<close> returns an identifier and \<open>getAllItems\<close> then returns
  exactly one row, with that identifier, name Milk, quantity 2, category Drinks and
  \<open>bought = 0\<close>; after \<open>toggleBoughtStatus\<close> of that identifier to 1 the list is that row with
  \<open>bought = 1\<close>; after \<open>deleteAllBoughtItems\<close> the list is empty, and so is the table.
\<close>

theorem add_toggle_remove_scenario:
  assumes "no_failure w" and "tbl w = Some []" and "max 0 (seq w) < largest_rowid"
  shows "\<exists>i t w1 w2 w3 w4 w5 w6.
           addItem (ascii ''Milk'') 2 (ascii ''Drinks'') w = (Some i, w1) \<and>
           getAllItems w1 = ([\<lparr>item_id = i, name = ascii ''Milk'', quantity = 2,
                               category = ascii ''Drinks'', bought = 0, created_at = t\<rparr>], w2) \<and>
           toggleBoughtStatus i 1 w2 = (True, w3) \<and>
           getAllItems w3 = ([\<lparr>item_id = i, name = ascii ''Milk'', quantity = 2,
                               category = ascii ''Drinks'', bought = 1, created_at = t\<rparr>], w4) \<and>
           deleteAllBoughtItems w4 = (True, w5) \<and>
           getAllItems w5 = ([], w6) \<and> tbl w6 = Some []"
proof -
  let ?i = "max (max_rowid []) (seq w) + 1"
  let ?t = "clock w (reads w)"
  let ?row = "\<lparr>item_id = ?i, name = ascii ''Milk'', quantity = 2, category = ascii ''Drinks'',
               bought = 0, created_at = ?t\<rparr>"
  from assms(3) have "max (max_rowid []) (seq w) < largest_rowid" by (simp add: max_rowid_def)
  from addItem_no_failure [OF assms(1,2) this, of "ascii ''Milk''" 2 "ascii ''Drinks''"]
  obtain w1 where a1: "addItem (ascii ''Milk'') 2 (ascii ''Drinks'') w = (Some ?i, w1)"
    and n1: "no_failure w1" and t1: "tbl w1 = Some [?row]"
    by auto
  from getAllItems_no_failure [OF n1 t1]
  obtain w2 where a2: "getAllItems w1 = ([?row], w2)" and n2: "no_failure w2"
    and t2: "tbl w2 = Some [?row]"
    by auto
  from toggleBoughtStatus_no_failure [OF n2 t2, of ?i 1]
  obtain w3 where a3: "toggleBoughtStatus ?i 1 w2 = (True, w3)" and n3: "no_failure w3"
    and t3: "tbl w3 = Some [?row\<lparr>bought := 1\<rparr>]"
    by auto
  from getAllItems_no_failure [OF n3 t3]
  obtain w4 where a4: "getAllItems w3 = ([?row\<lparr>bought := 1\<rparr>], w4)" and n4: "no_failure w4"
    and t4: "tbl w4 = Some [?row\<lparr>bought := 1\<rparr>]"
    by auto
  from deleteAllBoughtItems_no_failure [OF n4 t4]
  obtain w5 where a5: "deleteAllBoughtItems w4 = (True, w5)" and n5: "no_failure w5"
    and t5: "tbl w5 = Some []"
    by auto
  from getAllItems_no_failure [OF n5 t5]
  obtain w6 where a6: "getAllItems w5 = ([], w6)" and t6: "tbl w6 = Some []"
    by auto
  from a4 have a4': "getAllItems w3 = ([\<lparr>item_id = ?i, name = ascii ''Milk'', quantity = 2,
                               category = ascii ''Drinks'', bought = 1, created_at = ?t\<rparr>], w4)"
    by simp
  show ?thesis
    by (intro exI conjI) (rule a1 a2 a3 a4' a5 a6 t6)+
qed

theorem add_toggle_remove_scenario_witness:
  "no_failure empty_store \<and> tbl empty_store = Some [] \<and>
   max 0 (seq empty_store) < largest_rowid \<and>
   fst (addItem (ascii ''Milk'') 2 (ascii ''Drinks'') empty_store) = Some 4 \<and>
   (\<exists>i t w1 w2 w3 w4 w5 w6.
           addItem (ascii ''Milk'') 2 (ascii ''Drinks'') empty_store = (Some i, w1) \<and>
           getAllItems w1 = ([\<lparr>item_id = i, name = ascii ''Milk'', quantity = 2,
                               category = ascii ''Drinks'', bought = 0, created_at = t\<rparr>], w2) \<and>
           toggleBoughtStatus i 1 w2 = (True, w3) \<and>
           getAllItems w3 = ([\<lparr>item_id = i, name = ascii ''Milk'', quantity = 2,
                               category = ascii ''Drinks'', bought = 1, created_at = t\<rparr>], w4) \<and>
           deleteAllBoughtItems w4 = (True, w5) \<and>
           getAllItems w5 = ([], w6) \<and> tbl w6 = Some [])"
proof -
  have h1: "no_failure empty_store"
    by (simp add: no_failure_def empty_store_def seeded_store_def accessor_defs demo_defs)
  have h2: "tbl empty_store = Some []"
    by (simp add: empty_store_def seeded_store_def accessor_defs demo_defs)
  have h3: "max 0 (seq empty_store) < largest_rowid"
    by (simp add: empty_store_def seeded_store_def accessor_defs demo_defs)
  have c: "fst (addItem (ascii ''Milk'') 2 (ascii ''Drinks'') empty_store) = Some 4"
    by (simp add: empty_store_def seeded_store_def accessor_defs demo_defs)
  show ?thesis
    by (rule conjI [OF h1 conjI [OF h2 conjI [OF h3 conjI [OF c
          add_toggle_remove_scenario [OF h1 h2 h3]]]]])
qed

text \<open>
  Claim C1 as stated fails on a store that was only initialised: \<open>initDatabase\<close> seeds three
  sample rows into the new table, so after adding Milk the list has four rows, and after the
  Milk row is marked bought and removed the list still has the three sample rows.
\<close>

theorem add_after_initDatabase_lists_four_rows:
  "tbl fresh_store = None \<and> fst (initDatabase fresh_store) \<and>
   fst (addItem (ascii ''Milk'') 2 (ascii ''Drinks'') seeded_store) = Some 4 \<and>
   map item_id (fst (getAllItems (snd (addItem (ascii ''Milk'') 2 (ascii ''Drinks'') seeded_store))))
     = [4, 3, 2, 1] \<and>
   fst (toggleBoughtStatus 4 1 (snd (addItem (ascii ''Milk'') 2 (ascii ''Drinks'') seeded_store))) \<and>
   fst (deleteAllBoughtItems (snd (toggleBoughtStatus 4 1
          (snd (addItem (ascii ''Milk'') 2 (ascii ''Drinks'') seeded_store))))) \<and>
   map item_id (fst (getAllItems (snd (deleteAllBoughtItems (snd (toggleBoughtStatus 4 1
          (snd (addItem (ascii ''Milk'') 2 (ascii ''Drinks'') seeded_store))))))))
     = [3, 2, 1]"
  by (simp add: seeded_store_def accessor_defs demo_defs)

subsection \<open>Store errors\<close>

lemma getDatabase_fault:
  assumes "faults w = True # fs" and "getDatabase w = (Inr u, w0)"
  shows "w0 = w"
proof (cases "db w")
  case True
  with assms(2) show ?thesis by (simp add: getDatabase_def)
next
  case False
  show ?thesis
  proof (cases "dbPromise w")
    case None
    with assms False show ?thesis by (simp add: getDatabase_def native_call_def)
  next
    case (Some pr)
    with assms(2) False show ?thesis by (cases pr) (simp_all add: getDatabase_def)
  qed
qed

lemma statement_fault:
  "faults w = True # fs \<Longrightarrow> fst (statement body w) = Inl StatementFailed"
  by (simp add: statement_def native_call_def)

lemma execAsync_create_fault:
  "faults w = True # fs \<Longrightarrow> fst (execAsync_create w) = Inl StatementFailed"
  by (simp add: execAsync_create_def native_call_def)

lemma await_getDatabase_fault:
  assumes "faults w = True # fs"
    and "\<And>u. \<exists>e. fst (f u w) = Inl e"
  shows "\<exists>e. fst (await getDatabase f w) = Inl e"
proof (cases "getDatabase w")
  case (Pair r w0)
  show ?thesis
  proof (cases r)
    case (Inl e)
    with Pair show ?thesis by (simp add: await_def)
  next
    case (Inr u)
    with Pair assms(1) have "w0 = w" by (simp add: getDatabase_fault)
    with Pair Inr assms(2) [of u] show ?thesis by (simp add: await_def)
  qed
qed

lemma try_block_fault:
  assumes "faults w = True # fs"
  shows "\<exists>e. fst (getAllItems_try w) = Inl e"
    and "\<exists>e. fst (addItem_try nm q c w) = Inl e"
    and "\<exists>e. fst (initDatabase_try w) = Inl e"
    and "\<exists>e. fst (updateItem_try i nm q c w) = Inl e"
    and "\<exists>e. fst (toggleBoughtStatus_try i b w) = Inl e"
    and "\<exists>e. fst (deleteItem_try i w) = Inl e"
    and "\<exists>e. fst (deleteAllBoughtItems_try w) = Inl e"
proof -
  show "\<exists>e. fst (getAllItems_try w) = Inl e"
    unfolding getAllItems_try_def getAllAsync_select_def
    by (rule await_getDatabase_fault [OF assms]) (simp add: statement_fault [OF assms])
  show "\<exists>e. fst (addItem_try nm q c w) = Inl e"
    unfolding addItem_try_def runAsync_insert_def
    by (rule await_getDatabase_fault [OF assms])
      (simp add: date_now_def statement_fault [of _ fs] assms)
  show "\<exists>e. fst (initDatabase_try w) = Inl e"
    unfolding initDatabase_try_def
    by (rule await_getDatabase_fault [OF assms])
      (cases "execAsync_create w"; use execAsync_create_fault [OF assms] in \<open>simp add: await_def\<close>)
  show "\<exists>e. fst (updateItem_try i nm q c w) = Inl e"
    unfolding updateItem_try_def runAsync_update_def
    by (rule await_getDatabase_fault [OF assms]) (simp add: statement_fault [OF assms])
  show "\<exists>e. fst (toggleBoughtStatus_try i b w) = Inl e"
    unfolding toggleBoughtStatus_try_def runAsync_set_bought_def
    by (rule await_getDatabase_fault [OF assms]) (simp add: statement_fault [OF assms])
  show "\<exists>e. fst (deleteItem_try i w) = Inl e"
    unfolding deleteItem_try_def runAsync_delete_def
    by (rule await_getDatabase_fault [OF assms]) (simp add: statement_fault [OF assms])
  show "\<exists>e. fst (deleteAllBoughtItems_try w) = Inl e"
    unfolding deleteAllBoughtItems_try_def runAsync_delete_bought_def
    by (rule await_getDatabase_fault [OF assms]) (simp add: statement_fault [OF assms])
qed

lemma catch_sentinel:
  "fst (getAllItems_try w) = Inl e \<Longrightarrow> fst (getAllItems w) = []"
  "fst (addItem_try nm q c w) = Inl e \<Longrightarrow> fst (addItem nm q c w) = None"
  "fst (initDatabase_try w) = Inl e \<Longrightarrow> \<not> fst (initDatabase w)"
  "fst (body w) = Inl e \<Longrightarrow> \<not> fst (try_bool body w)"
  by (auto simp: getAllItems_def addItem_def initDatabase_def try_bool_def
      split: prod.splits sum.splits)


lemma initDatabase_success_iff:
  "fst (initDatabase w) \<longleftrightarrow>
     (\<exists>w0 wc. getDatabase w = (Inr (), w0) \<and> execAsync_create w0 = (Inr (), wc))"
proof
  assume "fst (initDatabase w)"
  then have "initDatabase w = (True, snd (initDatabase w))" by (cases "initDatabase w") simp
  from initDatabase_True [OF this] show "\<exists>w0 wc. getDatabase w = (Inr (), w0) \<and>
      execAsync_create w0 = (Inr (), wc)" by blast
next
  assume "\<exists>w0 wc. getDatabase w = (Inr (), w0) \<and> execAsync_create w0 = (Inr (), wc)"
  then show "fst (initDatabase w)" by (auto simp: initDatabase_unfold)
qed

lemma native_call_reads: "fst (native_call (w\<lparr>reads := n\<rparr>)) = fst (native_call w)"
  by (simp add: native_call_def split: list.splits)

lemma accessor_statement_fst:
  "fst (await getDatabase (\<lambda>database. statement body) w) =
     (case getDatabase w of
        (Inl e, w0) \<Rightarrow> Inl e
      | (Inr u, w0) \<Rightarrow>
          (case native_call w0 of
             (True, w1) \<Rightarrow> Inl StatementFailed
           | (False, w1) \<Rightarrow>
               (case tbl w of None \<Rightarrow> Inl NoSuchTable | Some rows \<Rightarrow> fst (body rows w1))))"
proof (cases "getDatabase w")
  case (Pair r w0)
  note gf = getDatabase_frame [OF Pair]
  show ?thesis
  proof (cases r)
    case (Inl e)
    with Pair show ?thesis by (simp add: await_def)
  next
    case (Inr u)
    obtain f w1 where n: "native_call w0 = (f, w1)" by (cases "native_call w0")
    from native_call_frame [OF n] gf have t: "tbl w1 = tbl w" by simp
    show ?thesis
      using Pair Inr n t by (cases f; cases "tbl w") (simp_all add: await_def statement_def)
  qed
qed

lemma try_bool_fst: "fst (try_bool body w) \<longleftrightarrow> fst (body w) = Inr ()"
  by (cases "body w"; cases "fst (body w)") (auto simp: try_bool_def)

lemma unit_statement_succeeds:
  assumes "\<And>rows w1. fst (body rows w1) = Inr ()"
  shows "fst (try_bool (await getDatabase (\<lambda>database. statement body)) w) \<longleftrightarrow> statement_succeeds w"
proof (cases "getDatabase w")
  case (Pair r w0)
  show ?thesis
  proof (cases r)
    case (Inl e)
    with Pair show ?thesis
      by (simp add: try_bool_fst accessor_statement_fst statement_succeeds_def call_ok_def)
  next
    case (Inr u)
    obtain f w1 where n: "native_call w0 = (f, w1)" by (cases "native_call w0")
    show ?thesis
      using Pair Inr n assms
      by (cases f; cases "tbl w")
        (simp_all add: try_bool_fst accessor_statement_fst statement_succeeds_def call_ok_def)
  qed
qed

lemma accessors_succeed_iff:
  "fst (updateItem i nm q c w) \<longleftrightarrow> statement_succeeds w"
  "fst (toggleBoughtStatus i b w) \<longleftrightarrow> statement_succeeds w"
  "fst (deleteItem i w) \<longleftrightarrow> statement_succeeds w"
  "fst (deleteAllBoughtItems w) \<longleftrightarrow> statement_succeeds w"
  unfolding updateItem_def updateItem_try_def runAsync_update_def
    toggleBoughtStatus_def toggleBoughtStatus_try_def runAsync_set_bought_def
    deleteItem_def deleteItem_try_def runAsync_delete_def
    deleteAllBoughtItems_def deleteAllBoughtItems_try_def runAsync_delete_bought_def
  by (rule unit_statement_succeeds, simp)+

lemma getAllItems_try_succeeds_iff:
  "(\<exists>xs. fst (getAllItems_try w) = Inr xs) \<longleftrightarrow> statement_succeeds w"
proof (cases "getDatabase w")
  case (Pair r w0)
  show ?thesis
  proof (cases r)
    case (Inl e)
    with Pair show ?thesis
      by (simp add: getAllItems_try_def getAllAsync_select_def accessor_statement_fst
          statement_succeeds_def call_ok_def)
  next
    case (Inr u)
    obtain f w1 where n: "native_call w0 = (f, w1)" by (cases "native_call w0")
    show ?thesis
      using Pair Inr n
      by (cases f; cases "tbl w")
        (simp_all add: getAllItems_try_def getAllAsync_select_def accessor_statement_fst
          statement_succeeds_def call_ok_def)
  qed
qed

lemma getAllItems_failed_empty:
  assumes "\<not> statement_succeeds w"
  shows "fst (getAllItems w) = []"
proof -
  from assms have "\<not> (\<exists>xs. fst (getAllItems_try w) = Inr xs)"
    by (simp add: getAllItems_try_succeeds_iff)
  then obtain e where "fst (getAllItems_try w) = Inl e"
    by (cases "fst (getAllItems_try w)") auto
  then show ?thesis by (rule catch_sentinel)
qed

lemma addItem_succeeds_iff:
  "fst (addItem nm q c w) \<noteq> None \<longleftrightarrow> insert_succeeds w"
proof (cases "getDatabase w")
  case (Pair r w0)
  note gf = getDatabase_frame [OF Pair]
  show ?thesis
  proof (cases r)
    case (Inl e)
    with Pair show ?thesis
      by (simp add: addItem_def addItem_try_unfold insert_succeeds_def call_ok_def)
  next
    case (Inr u)
    let ?w1 = "w0\<lparr>reads := Suc (reads w0)\<rparr>"
    obtain f w2 where n: "native_call ?w1 = (f, w2)" by (cases "native_call ?w1")
    from n have f: "fst (native_call w0) = f" using native_call_reads [where w = w0 and n = "Suc (reads w0)"] by simp
    from native_call_frame [OF n] gf have t: "tbl w2 = tbl w" "seq w2 = seq w" by simp_all
    show ?thesis
      using Pair Inr n f t
      by (cases f; cases "tbl w")
        (auto simp: addItem_def addItem_try_unfold insert_succeeds_def call_ok_def
          runAsync_insert_def statement_def Let_def)
  qed
qed

lemma initDatabase_succeeds_iff: "fst (initDatabase w) \<longleftrightarrow> call_ok w"
proof (cases "getDatabase w")
  case (Pair r w0)
  show ?thesis
  proof (cases r)
    case (Inl e)
    with Pair show ?thesis by (simp add: initDatabase_unfold call_ok_def)
  next
    case (Inr u)
    obtain f w1 where n: "native_call w0 = (f, w1)" by (cases "native_call w0")
    show ?thesis
      using Pair Inr n
      by (cases f; cases "tbl w1")
        (simp_all add: initDatabase_unfold call_ok_def execAsync_create_def)
  qed
qed


lemma call_ok_cases:
  "faults w = True # fs \<Longrightarrow> \<not> call_ok w"
  "\<not> db w \<and> dbPromise w = Some Rejected \<Longrightarrow> \<not> call_ok w"
  "\<not> db w \<and> dbPromise w = None \<and> faults w = False # True # fs \<Longrightarrow> \<not> call_ok w"
  "no_failure w \<Longrightarrow> call_ok w"
proof -
  show "\<not> call_ok w" if f: "faults w = True # fs"
  proof (cases "getDatabase w")
    case (Pair r w0)
    show ?thesis
    proof (cases r)
      case (Inl e)
      with Pair show ?thesis by (simp add: call_ok_def)
    next
      case (Inr u)
      with Pair f have "w0 = w" by (simp add: getDatabase_fault)
      with Pair Inr f show ?thesis by (simp add: call_ok_def native_call_def)
    qed
  qed
  show "\<not> call_ok w" if "\<not> db w \<and> dbPromise w = Some Rejected"
    using that by (simp add: call_ok_def getDatabase_def)
  show "\<not> call_ok w" if "\<not> db w \<and> dbPromise w = None \<and> faults w = False # True # fs"
    using that by (simp add: call_ok_def getDatabase_def native_call_def)
  show "call_ok w" if "no_failure w"
  proof -
    from getDatabase_no_failure [OF that] obtain w1 where "getDatabase w = (Inr (), w1)"
      and "no_failure w1" by blast
    then show ?thesis by (simp add: call_ok_def native_call_def no_failure_def)
  qed
qed

text \<open>
  Claim C9, as amended. The store errors an accessor can meet are: the open fails, or failed
  earlier on a platform where the rejected open stays cached; the call into the SQLite library
  throws; the table is missing; for \<open>addItem\<close>, no identifier is left. \<open>updateItem\<close>,
  \<open>toggleBoughtStatus\<close>, \<open>deleteItem\<close> and \<open>deleteAllBoughtItems\<close> return \<open>true\<close> exactly when
  none of the first three occurs, and \<open>false\<close> otherwise; the \<open>try\<close> block of \<open>getAllItems\<close>
  returns the rows exactly then, and otherwise \<open>getAllItems\<close> returns the empty list;
  \<open>addItem\<close> returns an identifier exactly when none of the four occurs, and \<open>null\<close> otherwise.
  So every store error of these accessors becomes the sentinel, and as the accessors are total
  functions nothing else comes out of them. \<open>initDatabase\<close> returns \<open>true\<close> exactly when the open
  and the call that creates the table succeed, and \<open>false\<close> otherwise: the one store error
  that does not become its sentinel is an error while seeding, which never reaches its
  \<open>catch\<close>. A failed read returns what a successful read of an empty table returns.
\<close>

theorem store_errors_become_sentinels:
  "(fst (updateItem i nm q c w) \<longleftrightarrow> statement_succeeds w) \<and>
   (fst (toggleBoughtStatus i b w) \<longleftrightarrow> statement_succeeds w) \<and>
   (fst (deleteItem i w) \<longleftrightarrow> statement_succeeds w) \<and>
   (fst (deleteAllBoughtItems w) \<longleftrightarrow> statement_succeeds w) \<and>
   ((\<exists>xs. fst (getAllItems_try w) = Inr xs) \<longleftrightarrow> statement_succeeds w) \<and>
   (\<not> statement_succeeds w \<longrightarrow> fst (getAllItems w) = []) \<and>
   (fst (addItem nm q c w) \<noteq> None \<longleftrightarrow> insert_succeeds w) \<and>
   (fst (initDatabase w) \<longleftrightarrow> call_ok w) \<and>
   (fst (initDatabase w) \<longleftrightarrow>
      (\<exists>w0 wc. getDatabase w = (Inr (), w0) \<and> execAsync_create w0 = (Inr (), wc))) \<and>
   (faults w = True # fs \<longrightarrow> \<not> call_ok w) \<and>
   (\<not> db w \<and> dbPromise w = Some Rejected \<longrightarrow> \<not> call_ok w) \<and>
   (\<not> db w \<and> dbPromise w = None \<and> faults w = False # True # fs \<longrightarrow> \<not> call_ok w) \<and>
   (tbl w = None \<longrightarrow> \<not> statement_succeeds w \<and> \<not> insert_succeeds w) \<and>
   (\<forall>rows. tbl w = Some rows \<and> largest_rowid < max (max_rowid rows) (seq w) + 1
      \<longrightarrow> \<not> insert_succeeds w) \<and>
   (no_failure w \<longrightarrow> call_ok w) \<and>
   (fst (getAllItems_try w) = Inl e \<longrightarrow> fst (getAllItems w) = []) \<and>
   (fst (addItem_try nm q c w) = Inl e \<longrightarrow> fst (addItem nm q c w) = None) \<and>
   (fst (initDatabase_try w) = Inl e \<longrightarrow> \<not> fst (initDatabase w)) \<and>
   (fst (updateItem_try i nm q c w) = Inl e \<longrightarrow> \<not> fst (updateItem i nm q c w)) \<and>
   (fst (toggleBoughtStatus_try i b w) = Inl e \<longrightarrow> \<not> fst (toggleBoughtStatus i b w)) \<and>
   (fst (deleteItem_try i w) = Inl e \<longrightarrow> \<not> fst (deleteItem i w)) \<and>
   (fst (deleteAllBoughtItems_try w) = Inl e \<longrightarrow> \<not> fst (deleteAllBoughtItems w)) \<and>
   (faults w = True # fs \<longrightarrow>
      fst (getAllItems w) = [] \<and> fst (addItem nm q c w) = None \<and> \<not> fst (initDatabase w) \<and>
      \<not> fst (updateItem i nm q c w) \<and> \<not> fst (toggleBoughtStatus i b w) \<and>
      \<not> fst (deleteItem i w) \<and> \<not> fst (deleteAllBoughtItems w)) \<and>
   (\<not> statement_succeeds w \<and> no_failure v \<and> tbl v = Some [] \<longrightarrow>
      fst (getAllItems w) = fst (getAllItems v) \<and> (\<exists>xs. fst (getAllItems_try v) = Inr xs))"
proof (intro conjI impI allI)
  show "fst (updateItem i nm q c w) \<longleftrightarrow> statement_succeeds w"
    "fst (toggleBoughtStatus i b w) \<longleftrightarrow> statement_succeeds w"
    "fst (deleteItem i w) \<longleftrightarrow> statement_succeeds w"
    "fst (deleteAllBoughtItems w) \<longleftrightarrow> statement_succeeds w"
    by (rule accessors_succeed_iff)+
  show "(\<exists>xs. fst (getAllItems_try w) = Inr xs) \<longleftrightarrow> statement_succeeds w"
    by (rule getAllItems_try_succeeds_iff)
  show "fst (addItem nm q c w) \<noteq> None \<longleftrightarrow> insert_succeeds w"
    by (rule addItem_succeeds_iff)
  show "fst (initDatabase w) \<longleftrightarrow> call_ok w"
    by (rule initDatabase_succeeds_iff)
  show "fst (initDatabase w) \<longleftrightarrow>
      (\<exists>w0 wc. getDatabase w = (Inr (), w0) \<and> execAsync_create w0 = (Inr (), wc))"
    by (rule initDatabase_success_iff)
next
  assume "\<not> statement_succeeds w"
  then show "fst (getAllItems w) = []" by (rule getAllItems_failed_empty)
next
  assume "\<not> db w \<and> dbPromise w = Some Rejected"
  then show "\<not> call_ok w" by (rule call_ok_cases)
next
  assume "\<not> db w \<and> dbPromise w = None \<and> faults w = False # True # fs"
  then show "\<not> call_ok w" by (rule call_ok_cases)
next
  assume "tbl w = None"
  then show "\<not> statement_succeeds w" "\<not> insert_succeeds w"
    by (simp_all add: statement_succeeds_def insert_succeeds_def)
next
  fix rows
  assume "tbl w = Some rows \<and> largest_rowid < max (max_rowid rows) (seq w) + 1"
  then have "tbl w = Some rows" "\<not> max (max_rowid rows) (seq w) + 1 \<le> largest_rowid"
    by simp_all
  then show "\<not> insert_succeeds w" by (simp add: insert_succeeds_def)
next
  assume "no_failure w"
  then show "call_ok w" by (rule call_ok_cases)
next
  assume f: "faults w = True # fs"
  then show "\<not> call_ok w" by (rule call_ok_cases)
  note tb = try_block_fault [OF f]
  from tb(1) show "fst (getAllItems w) = []" by (auto dest: catch_sentinel)
  from tb(2) show "fst (addItem nm q c w) = None" by (auto dest: catch_sentinel)
  from tb(3) show "\<not> fst (initDatabase w)" by (auto dest: catch_sentinel)
  from tb(4) obtain e' where "fst (updateItem_try i nm q c w) = Inl e'" by blast
  then show "\<not> fst (updateItem i nm q c w)"
    unfolding updateItem_def by (rule catch_sentinel(4))
  from tb(5) obtain e' where "fst (toggleBoughtStatus_try i b w) = Inl e'" by blast
  then show "\<not> fst (toggleBoughtStatus i b w)"
    unfolding toggleBoughtStatus_def by (rule catch_sentinel(4))
  from tb(6) obtain e' where "fst (deleteItem_try i w) = Inl e'" by blast
  then show "\<not> fst (deleteItem i w)"
    unfolding deleteItem_def by (rule catch_sentinel(4))
  from tb(7) obtain e' where "fst (deleteAllBoughtItems_try w) = Inl e'" by blast
  then show "\<not> fst (deleteAllBoughtItems w)"
    unfolding deleteAllBoughtItems_def by (rule catch_sentinel(4))
next
  assume a: "\<not> statement_succeeds w \<and> no_failure v \<and> tbl v = Some []"
  then have n: "no_failure v" and t: "tbl v = Some []" by simp_all
  from getAllItems_no_failure [OF n t] have v: "fst (getAllItems v) = []" by auto
  from a have "fst (getAllItems w) = []" by (simp add: getAllItems_failed_empty)
  with v show "fst (getAllItems w) = fst (getAllItems v)" by simp
next
  assume a: "\<not> statement_succeeds w \<and> no_failure v \<and> tbl v = Some []"
  then have n: "no_failure v" and t: "tbl v = Some []" by simp_all
  from accessor_statement_no_failure [OF n t] obtain w1 where
    "await getDatabase (\<lambda>database. statement
        (\<lambda>rows w. (Inr (sort_key (\<lambda>r. - created_at r) rows), w))) v
      = (Inr (sort_key (\<lambda>r. - created_at r) []), w1)"
    by blast
  then show "\<exists>xs. fst (getAllItems_try v) = Inr xs"
    by (simp add: getAllItems_try_def getAllAsync_select_def)
qed (simp_all add: catch_sentinel updateItem_def toggleBoughtStatus_def deleteItem_def
      deleteAllBoughtItems_def)


text \<open>
  Claim C9 as stated fails for \<open>initDatabase\<close>: on \<open>seed_fault_store\<close> the first sample insert
  throws, the \<open>try\<close> block of \<open>seedSampleData\<close> ends with that error, and \<open>initDatabase\<close>
  returns \<open>true\<close>, not the failure value.
\<close>

theorem seeding_error_not_reported:
  "fst (seedSampleData_try (snd (execAsync_create (snd (getDatabase seed_fault_store)))))
     = Inl StatementFailed \<and>
   fst (initDatabase seed_fault_store)"
  by (simp add: seed_fault_store_def accessor_defs demo_defs)


theorem store_errors_become_sentinels_witness:
  "faults faulty_store = [True] \<and> tbl faulty_store = Some demo_rows \<and>
   fst (getAllItems_try faulty_store) = Inl StatementFailed \<and>
   fst (addItem_try (ascii ''Milk'') 2 (ascii ''Drinks'') faulty_store) = Inl StatementFailed \<and>
   fst (initDatabase_try faulty_store) = Inl StatementFailed \<and>
   fst (updateItem_try 2 (ascii ''Milk'') 2 (ascii ''Drinks'') faulty_store) = Inl StatementFailed \<and>
   fst (toggleBoughtStatus_try 2 1 faulty_store) = Inl StatementFailed \<and>
   fst (deleteItem_try 2 faulty_store) = Inl StatementFailed \<and>
   fst (deleteAllBoughtItems_try faulty_store) = Inl StatementFailed \<and>
   (fst (getAllItems faulty_store) = [] \<and>
    fst (addItem (ascii ''Milk'') 2 (ascii ''Drinks'') faulty_store) = None \<and>
    \<not> fst (initDatabase faulty_store) \<and>
    \<not> fst (updateItem 2 (ascii ''Milk'') 2 (ascii ''Drinks'') faulty_store) \<and>
    \<not> fst (toggleBoughtStatus 2 1 faulty_store) \<and>
    \<not> fst (deleteItem 2 faulty_store) \<and>
    \<not> fst (deleteAllBoughtItems faulty_store)) \<and>
   tbl fresh_store = None \<and> no_failure fresh_store \<and>
   (fst (getAllItems fresh_store) = [] \<and>
    fst (addItem (ascii ''Milk'') 2 (ascii ''Drinks'') fresh_store) = None \<and>
    fst (initDatabase fresh_store) \<and>
    \<not> fst (updateItem 2 (ascii ''Milk'') 2 (ascii ''Drinks'') fresh_store) \<and>
    \<not> fst (toggleBoughtStatus 2 1 fresh_store) \<and>
    \<not> fst (deleteItem 2 fresh_store) \<and>
    \<not> fst (deleteAllBoughtItems fresh_store)) \<and>
   \<not> db rejected_store \<and> dbPromise rejected_store = Some Rejected \<and>
   faults rejected_store = [] \<and> tbl rejected_store = Some demo_rows \<and>
   (fst (getAllItems rejected_store) = [] \<and>
    fst (addItem (ascii ''Milk'') 2 (ascii ''Drinks'') rejected_store) = None \<and>
    \<not> fst (initDatabase rejected_store) \<and>
    \<not> fst (updateItem 2 (ascii ''Milk'') 2 (ascii ''Drinks'') rejected_store) \<and>
    \<not> fst (toggleBoughtStatus 2 1 rejected_store) \<and>
    \<not> fst (deleteItem 2 rejected_store) \<and>
    \<not> fst (deleteAllBoughtItems rejected_store)) \<and>
   \<not> db second_call_fault_store \<and> dbPromise second_call_fault_store = None \<and>
   faults second_call_fault_store = [False, True] \<and>
   tbl second_call_fault_store = Some demo_rows \<and>
   (fst (getAllItems second_call_fault_store) = [] \<and>
    fst (addItem (ascii ''Milk'') 2 (ascii ''Drinks'') second_call_fault_store) = None \<and>
    \<not> fst (initDatabase second_call_fault_store) \<and>
    \<not> fst (updateItem 2 (ascii ''Milk'') 2 (ascii ''Drinks'') second_call_fault_store) \<and>
    \<not> fst (toggleBoughtStatus 2 1 second_call_fault_store) \<and>
    \<not> fst (deleteItem 2 second_call_fault_store) \<and>
    \<not> fst (deleteAllBoughtItems second_call_fault_store)) \<and>
   no_failure full_store \<and> tbl full_store = Some demo_rows \<and> seq full_store = largest_rowid \<and>
   (fst (addItem (ascii ''Milk'') 2 (ascii ''Drinks'') full_store) = None \<and>
    fst (deleteItem 2 full_store)) \<and>
   no_failure demo_store \<and> tbl demo_store = Some demo_rows \<and> seq demo_store = 4 \<and>
   (fst (addItem (ascii ''Milk'') 2 (ascii ''Drinks'') demo_store) \<noteq> None \<and>
    fst (initDatabase demo_store) \<and>
    fst (updateItem 2 (ascii ''Milk'') 2 (ascii ''Drinks'') demo_store) \<and>
    fst (toggleBoughtStatus 2 1 demo_store) \<and>
    fst (deleteItem 2 demo_store) \<and>
    fst (deleteAllBoughtItems demo_store) \<and>
    (\<exists>xs. fst (getAllItems_try demo_store) = Inr xs)) \<and>
   no_failure empty_store \<and> tbl empty_store = Some [] \<and>
   fst (getAllItems faulty_store) = fst (getAllItems empty_store) \<and>
   fst (initDatabase seed_fault_store)"
proof -
  note th = store_errors_become_sentinels [where e = StatementFailed
      and nm = "ascii ''Milk''" and q = 2 and c = "ascii ''Drinks''" and i = 2 and b = 1
      and v = empty_store]
  have f: "faults faulty_store = [True]" by (simp add: faulty_store_def)
  have d: "tbl faulty_store = Some demo_rows" by (simp add: faulty_store_def demo_store_def)
  have b1: "fst (getAllItems_try faulty_store) = Inl StatementFailed"
    and b2: "fst (addItem_try (ascii ''Milk'') 2 (ascii ''Drinks'') faulty_store) = Inl StatementFailed"
    and b3: "fst (initDatabase_try faulty_store) = Inl StatementFailed"
    and b4: "fst (updateItem_try 2 (ascii ''Milk'') 2 (ascii ''Drinks'') faulty_store) = Inl StatementFailed"
    and b5: "fst (toggleBoughtStatus_try 2 1 faulty_store) = Inl StatementFailed"
    and b6: "fst (deleteItem_try 2 faulty_store) = Inl StatementFailed"
    and b7: "fst (deleteAllBoughtItems_try faulty_store) = Inl StatementFailed"
    by (simp_all add: faulty_store_def accessor_defs demo_defs)
  note F10 = th [where w = faulty_store and fs = "[]",
      THEN conjunct2, THEN conjunct2, THEN conjunct2, THEN conjunct2, THEN conjunct2, THEN conjunct2, THEN conjunct2, THEN conjunct2, THEN conjunct2, THEN conjunct1]
  note F23 = th [where w = faulty_store and fs = "[]",
      THEN conjunct2, THEN conjunct2, THEN conjunct2, THEN conjunct2, THEN conjunct2, THEN conjunct2, THEN conjunct2, THEN conjunct2, THEN conjunct2, THEN conjunct2, THEN conjunct2, THEN conjunct2, THEN conjunct2, THEN conjunct2, THEN conjunct2, THEN conjunct2, THEN conjunct2, THEN conjunct2, THEN conjunct2, THEN conjunct2, THEN conjunct2, THEN conjunct2, THEN conjunct1]
  note F24 = th [where w = faulty_store and fs = "[]",
      THEN conjunct2, THEN conjunct2, THEN conjunct2, THEN conjunct2, THEN conjunct2, THEN conjunct2, THEN conjunct2, THEN conjunct2, THEN conjunct2, THEN conjunct2, THEN conjunct2, THEN conjunct2, THEN conjunct2, THEN conjunct2, THEN conjunct2, THEN conjunct2, THEN conjunct2, THEN conjunct2, THEN conjunct2, THEN conjunct2, THEN conjunct2, THEN conjunct2, THEN conjunct2]
  note cF = F23 [THEN mp, OF f]
  have pF: "\<not> statement_succeeds faulty_store"
    using F10 [THEN mp, OF f] by (simp add: statement_succeeds_def)
  have n0: "tbl fresh_store = None" and n1: "no_failure fresh_store"
    by (simp_all add: fresh_store_def no_failure_def)
  note N1 = th [where w = fresh_store and fs = "[]",
      THEN conjunct1]
  note N2 = th [where w = fresh_store and fs = "[]",
      THEN conjunct2, THEN conjunct1]
  note N3 = th [where w = fresh_store and fs = "[]",
      THEN conjunct2, THEN conjunct2, THEN conjunct1]
  note N4 = th [where w = fresh_store and fs = "[]",
      THEN conjunct2, THEN conjunct2, THEN conjunct2, THEN conjunct1]
  note N6 = th [where w = fresh_store and fs = "[]",
      THEN conjunct2, THEN conjunct2, THEN conjunct2, THEN conjunct2, THEN conjunct2, THEN conjunct1]
  note N7 = th [where w = fresh_store and fs = "[]",
      THEN conjunct2, THEN conjunct2, THEN conjunct2, THEN conjunct2, THEN conjunct2, THEN conjunct2, THEN conjunct1]
  note N8 = th [where w = fresh_store and fs = "[]",
      THEN conjunct2, THEN conjunct2, THEN conjunct2, THEN conjunct2, THEN conjunct2, THEN conjunct2, THEN conjunct2, THEN conjunct1]
  note N13 = th [where w = fresh_store and fs = "[]",
      THEN conjunct2, THEN conjunct2, THEN conjunct2, THEN conjunct2, THEN conjunct2, THEN conjunct2, THEN conjunct2, THEN conjunct2, THEN conjunct2, THEN conjunct2, THEN conjunct2, THEN conjunct2, THEN conjunct1]
  note N15 = th [where w = fresh_store and fs = "[]",
      THEN conjunct2, THEN conjunct2, THEN conjunct2, THEN conjunct2, THEN conjunct2, THEN conjunct2, THEN conjunct2, THEN conjunct2, THEN conjunct2, THEN conjunct2, THEN conjunct2, THEN conjunct2, THEN conjunct2, THEN conjunct2, THEN conjunct1]
  note pN = N13 [THEN mp, OF n0]
  note qN = N15 [THEN mp, OF n1]
  have cN: "fst (getAllItems fresh_store) = [] \<and>
    fst (addItem (ascii ''Milk'') 2 (ascii ''Drinks'') fresh_store) = None \<and>
    fst (initDatabase fresh_store) \<and>
    \<not> fst (updateItem 2 (ascii ''Milk'') 2 (ascii ''Drinks'') fresh_store) \<and>
    \<not> fst (toggleBoughtStatus 2 1 fresh_store) \<and>
    \<not> fst (deleteItem 2 fresh_store) \<and>
    \<not> fst (deleteAllBoughtItems fresh_store)"
    using N1 N2 N3 N4 N6 N7 N8 pN qN by simp
  have r0: "\<not> db rejected_store" and r1: "dbPromise rejected_store = Some Rejected"
    and r2: "faults rejected_store = []" and r3: "tbl rejected_store = Some demo_rows"
    by (simp_all add: rejected_store_def restart_def accessor_defs demo_defs)
  note R1 = th [where w = rejected_store and fs = "[]",
      THEN conjunct1]
  note R2 = th [where w = rejected_store and fs = "[]",
      THEN conjunct2, THEN conjunct1]
  note R3 = th [where w = rejected_store and fs = "[]",
      THEN conjunct2, THEN conjunct2, THEN conjunct1]
  note R4 = th [where w = rejected_store and fs = "[]",
      THEN conjunct2, THEN conjunct2, THEN conjunct2, THEN conjunct1]
  note R6 = th [where w = rejected_store and fs = "[]",
      THEN conjunct2, THEN conjunct2, THEN conjunct2, THEN conjunct2, THEN conjunct2, THEN conjunct1]
  note R7 = th [where w = rejected_store and fs = "[]",
      THEN conjunct2, THEN conjunct2, THEN conjunct2, THEN conjunct2, THEN conjunct2, THEN conjunct2, THEN conjunct1]
  note R8 = th [where w = rejected_store and fs = "[]",
      THEN conjunct2, THEN conjunct2, THEN conjunct2, THEN conjunct2, THEN conjunct2, THEN conjunct2, THEN conjunct2, THEN conjunct1]
  note R11 = th [where w = rejected_store and fs = "[]",
      THEN conjunct2, THEN conjunct2, THEN conjunct2, THEN conjunct2, THEN conjunct2, THEN conjunct2, THEN conjunct2, THEN conjunct2, THEN conjunct2, THEN conjunct2, THEN conjunct1]
  note qR = R11 [THEN mp, OF conjI [OF r0 r1]]
  from qR have pR: "\<not> statement_succeeds rejected_store" "\<not> insert_succeeds rejected_store"
    by (simp_all add: statement_succeeds_def insert_succeeds_def)
  have cR: "fst (getAllItems rejected_store) = [] \<and>
    fst (addItem (ascii ''Milk'') 2 (ascii ''Drinks'') rejected_store) = None \<and>
    \<not> fst (initDatabase rejected_store) \<and>
    \<not> fst (updateItem 2 (ascii ''Milk'') 2 (ascii ''Drinks'') rejected_store) \<and>
    \<not> fst (toggleBoughtStatus 2 1 rejected_store) \<and>
    \<not> fst (deleteItem 2 rejected_store) \<and>
    \<not> fst (deleteAllBoughtItems rejected_store)"
    using R1 R2 R3 R4 R6 R7 R8 pR qR by simp
  have s0: "\<not> db second_call_fault_store" and s1: "dbPromise second_call_fault_store = None"
    and s2: "faults second_call_fault_store = [False, True]"
    and s3: "tbl second_call_fault_store = Some demo_rows"
    by (simp_all add: second_call_fault_store_def restart_def demo_store_def)
  note S1 = th [where w = second_call_fault_store and fs = "[]",
      THEN conjunct1]
  note S2 = th [where w = second_call_fault_store and fs = "[]",
      THEN conjunct2, THEN conjunct1]
  note S3 = th [where w = second_call_fault_store and fs = "[]",
      THEN conjunct2, THEN conjunct2, THEN conjunct1]
  note S4 = th [where w = second_call_fault_store and fs = "[]",
      THEN conjunct2, THEN conjunct2, THEN conjunct2, THEN conjunct1]
  note S6 = th [where w = second_call_fault_store and fs = "[]",
      THEN conjunct2, THEN conjunct2, THEN conjunct2, THEN conjunct2, THEN conjunct2, THEN conjunct1]
  note S7 = th [where w = second_call_fault_store and fs = "[]",
      THEN conjunct2, THEN conjunct2, THEN conjunct2, THEN conjunct2, THEN conjunct2, THEN conjunct2, THEN conjunct1]
  note S8 = th [where w = second_call_fault_store and fs = "[]",
      THEN conjunct2, THEN conjunct2, THEN conjunct2, THEN conjunct2, THEN conjunct2, THEN conjunct2, THEN conjunct2, THEN conjunct1]
  note S12 = th [where w = second_call_fault_store and fs = "[]",
      THEN conjunct2, THEN conjunct2, THEN conjunct2, THEN conjunct2, THEN conjunct2, THEN conjunct2, THEN conjunct2, THEN conjunct2, THEN conjunct2, THEN conjunct2, THEN conjunct2, THEN conjunct1]
  note qS = S12 [THEN mp, OF conjI [OF s0 conjI [OF s1 s2]]]
  from qS have pS: "\<not> statement_succeeds second_call_fault_store"
    "\<not> insert_succeeds second_call_fault_store"
    by (simp_all add: statement_succeeds_def insert_succeeds_def)
  have cS: "fst (getAllItems second_call_fault_store) = [] \<and>
    fst (addItem (ascii ''Milk'') 2 (ascii ''Drinks'') second_call_fault_store) = None \<and>
    \<not> fst (initDatabase second_call_fault_store) \<and>
    \<not> fst (updateItem 2 (ascii ''Milk'') 2 (ascii ''Drinks'') second_call_fault_store) \<and>
    \<not> fst (toggleBoughtStatus 2 1 second_call_fault_store) \<and>
    \<not> fst (deleteItem 2 second_call_fault_store) \<and>
    \<not> fst (deleteAllBoughtItems second_call_fault_store)"
    using S1 S2 S3 S4 S6 S7 S8 pS qS by simp
  have u0: "no_failure full_store" and u1: "tbl full_store = Some demo_rows"
    and u2: "seq full_store = largest_rowid"
    by (simp_all add: full_store_def demo_store_def no_failure_def)
  have u3: "largest_rowid < max (max_rowid demo_rows) (seq full_store) + 1"
    by (simp add: u2)
  note U3 = th [where w = full_store and fs = "[]",
      THEN conjunct2, THEN conjunct2, THEN conjunct1]
  note U7 = th [where w = full_store and fs = "[]",
      THEN conjunct2, THEN conjunct2, THEN conjunct2, THEN conjunct2, THEN conjunct2, THEN conjunct2, THEN conjunct1]
  note U14 = th [where w = full_store and fs = "[]",
      THEN conjunct2, THEN conjunct2, THEN conjunct2, THEN conjunct2, THEN conjunct2, THEN conjunct2, THEN conjunct2, THEN conjunct2, THEN conjunct2, THEN conjunct2, THEN conjunct2, THEN conjunct2, THEN conjunct2, THEN conjunct1]
  note U15 = th [where w = full_store and fs = "[]",
      THEN conjunct2, THEN conjunct2, THEN conjunct2, THEN conjunct2, THEN conjunct2, THEN conjunct2, THEN conjunct2, THEN conjunct2, THEN conjunct2, THEN conjunct2, THEN conjunct2, THEN conjunct2, THEN conjunct2, THEN conjunct2, THEN conjunct1]
  note pU = U14 [THEN spec, THEN mp, OF conjI [OF u1 u3]]
  note qU = U15 [THEN mp, OF u0]
  from qU u1 have rU: "statement_succeeds full_store" by (simp add: statement_succeeds_def)
  have cU: "fst (addItem (ascii ''Milk'') 2 (ascii ''Drinks'') full_store) = None \<and>
    fst (deleteItem 2 full_store)"
    using U3 U7 pU rU by simp
  have d0: "no_failure demo_store" and d1: "tbl demo_store = Some demo_rows"
    and d2: "seq demo_store = 4"
    by (simp_all add: demo_store_def no_failure_def)
  have d3: "max (max_rowid demo_rows) 4 + 1 \<le> largest_rowid"
    by (simp add: demo_rows_def max_rowid_def largest_rowid_def)
  note D1 = th [where w = demo_store and fs = "[]",
      THEN conjunct1]
  note D2 = th [where w = demo_store and fs = "[]",
      THEN conjunct2, THEN conjunct1]
  note D3 = th [where w = demo_store and fs = "[]",
      THEN conjunct2, THEN conjunct2, THEN conjunct1]
  note D4 = th [where w = demo_store and fs = "[]",
      THEN conjunct2, THEN conjunct2, THEN conjunct2, THEN conjunct1]
  note D5 = th [where w = demo_store and fs = "[]",
      THEN conjunct2, THEN conjunct2, THEN conjunct2, THEN conjunct2, THEN conjunct1]
  note D7 = th [where w = demo_store and fs = "[]",
      THEN conjunct2, THEN conjunct2, THEN conjunct2, THEN conjunct2, THEN conjunct2, THEN conjunct2, THEN conjunct1]
  note D8 = th [where w = demo_store and fs = "[]",
      THEN conjunct2, THEN conjunct2, THEN conjunct2, THEN conjunct2, THEN conjunct2, THEN conjunct2, THEN conjunct2, THEN conjunct1]
  note D15 = th [where w = demo_store and fs = "[]",
      THEN conjunct2, THEN conjunct2, THEN conjunct2, THEN conjunct2, THEN conjunct2, THEN conjunct2, THEN conjunct2, THEN conjunct2, THEN conjunct2, THEN conjunct2, THEN conjunct2, THEN conjunct2, THEN conjunct2, THEN conjunct2, THEN conjunct1]
  note qD = D15 [THEN mp, OF d0]
  from qD d1 d2 d3 have pD: "statement_succeeds demo_store" "insert_succeeds demo_store"
    by (simp_all add: statement_succeeds_def insert_succeeds_def)
  have cD: "fst (addItem (ascii ''Milk'') 2 (ascii ''Drinks'') demo_store) \<noteq> None \<and>
    fst (initDatabase demo_store) \<and>
    fst (updateItem 2 (ascii ''Milk'') 2 (ascii ''Drinks'') demo_store) \<and>
    fst (toggleBoughtStatus 2 1 demo_store) \<and>
    fst (deleteItem 2 demo_store) \<and>
    fst (deleteAllBoughtItems demo_store) \<and>
    (\<exists>xs. fst (getAllItems_try demo_store) = Inr xs)"
    using D1 D2 D3 D4 D5 D7 D8 pD qD by simp
  have n: "no_failure empty_store"
    by (simp add: no_failure_def empty_store_def seeded_store_def accessor_defs demo_defs)
  have t: "tbl empty_store = Some []"
    by (simp add: empty_store_def seeded_store_def accessor_defs demo_defs)
  note cE = F24 [THEN mp, OF conjI [OF pF conjI [OF n t]], THEN conjunct1]
  have "\<exists>w0 wc. getDatabase seed_fault_store = (Inr (), w0) \<and> execAsync_create w0 = (Inr (), wc)"
    by (simp add: seed_fault_store_def accessor_defs demo_defs)
  with th [where w = seed_fault_store and fs = "[]",
      THEN conjunct2, THEN conjunct2, THEN conjunct2, THEN conjunct2, THEN conjunct2, THEN conjunct2, THEN conjunct2, THEN conjunct2, THEN conjunct1]
  have cI: "fst (initDatabase seed_fault_store)" by simp
  show ?thesis
    by (intro conjI f d b1 b2 b3 b4 b5 b6 b7 cF n0 n1 cN r0 r1 r2 r3 cR s0 s1 s2 s3 cS
        u0 u1 u2 cU d0 d1 d2 cD n t cE cI)
qed

subsection \<open>The quantity of a new item\<close>

lemmas form_defs = isWhiteSpace_def trim_def digitValue_def isRadixDigit_def digitsValue_def
  parseInt_def or_one_def validateForm_def handleSave_def milk_form_def

lemma or_one_cases:
  "or_one x \<noteq> 0"
  "x = None \<or> x = Some 0 \<Longrightarrow> or_one x = 1"
  "x = Some n \<Longrightarrow> n \<noteq> 0 \<Longrightarrow> or_one x = n"
  by (auto simp: or_one_def split: option.splits)

lemma handleSave_add_Saved:
  assumes "editItem f = None" and "handleSave f w = (Saved, w')"
  shows "validateForm f \<and>
         (\<exists>i. addItem (trim (form_name f)) (or_one (parseInt (form_quantity f)))
                 (trim (form_category f)) w = (Some i, w'))"
proof -
  from assms(2) have v: "validateForm f"
    by (cases "validateForm f") (simp_all add: handleSave_def)
  obtain result w1 where a: "addItem (trim (form_name f)) (or_one (parseInt (form_quantity f)))
                 (trim (form_category f)) w = (result, w1)"
    by (cases "addItem (trim (form_name f)) (or_one (parseInt (form_quantity f)))
                 (trim (form_category f)) w")
  from assms v a have "result \<noteq> None" and "w1 = w'"
    by (auto simp: handleSave_def Let_def split: if_splits)
  with a v show ?thesis by auto
qed

text \<open>
  Claim C2, as amended: when the form saves a new item, the row it appends carries the trimmed
  name and category and the quantity \<open>parseInt(quantity) || 1\<close>: it is never 0; it is 1 when
  \<open>parseInt\<close> reads no number from the quantity text (the text is empty or does not start with
  a number) or reads zero, whatever the length of the text; and it is the number read
  otherwise, also when that is negative, for a number of magnitude at most \<open>2^53\<close> (which a
  JavaScript number holds exactly). \<open>addItem\<close> itself stores the quantity it is given.
\<close>

theorem handleSave_quantity_default:
  "(editItem f = None \<and> handleSave f w = (Saved, w') \<longrightarrow>
      (\<exists>rows row. tbl w = Some rows \<and> tbl w' = Some (rows @ [row]) \<and>
         name row = trim (form_name f) \<and> category row = trim (form_category f) \<and>
         quantity row \<noteq> 0 \<and>
         (parseInt (form_quantity f) = None \<or> parseInt (form_quantity f) = Some 0
            \<longrightarrow> quantity row = 1) \<and>
         (\<forall>n. parseInt (form_quantity f) = Some n \<and> n \<noteq> 0 \<and> \<bar>n\<bar> \<le> 2 ^ 53
            \<longrightarrow> quantity row = n))) \<and>
   (addItem nm q c w = (Some i, w') \<longrightarrow>
      (\<exists>rows row. tbl w = Some rows \<and> tbl w' = Some (rows @ [row]) \<and> quantity row = q))"
proof (intro conjI impI)
  assume a: "editItem f = None \<and> handleSave f w = (Saved, w')"
  then have "editItem f = None" "handleSave f w = (Saved, w')" by simp_all
  from handleSave_add_Saved [OF this] obtain j where
    "addItem (trim (form_name f)) (or_one (parseInt (form_quantity f)))
        (trim (form_category f)) w = (Some j, w')"
    by blast
  from addItem_Some [OF this] obtain rows where t: "tbl w = Some rows"
    and t': "tbl w' = Some (rows @ [\<lparr>item_id = j, name = trim (form_name f),
                 quantity = or_one (parseInt (form_quantity f)),
                 category = trim (form_category f), bought = 0,
                 created_at = clock w (reads w)\<rparr>])"
    by blast
  let ?row = "\<lparr>item_id = j, name = trim (form_name f),
                 quantity = or_one (parseInt (form_quantity f)),
                 category = trim (form_category f), bought = 0,
                 created_at = clock w (reads w)\<rparr>"
  have q: "quantity ?row = or_one (parseInt (form_quantity f))" by simp
  have "tbl w = Some rows \<and> tbl w' = Some (rows @ [?row]) \<and>
         name ?row = trim (form_name f) \<and> category ?row = trim (form_category f) \<and>
         quantity ?row \<noteq> 0 \<and>
         (parseInt (form_quantity f) = None \<or> parseInt (form_quantity f) = Some 0
            \<longrightarrow> quantity ?row = 1) \<and>
         (\<forall>n. parseInt (form_quantity f) = Some n \<and> n \<noteq> 0 \<and> \<bar>n\<bar> \<le> 2 ^ 53
            \<longrightarrow> quantity ?row = n)"
    unfolding q using t t' by (simp add: or_one_cases)
  then show "\<exists>rows row. tbl w = Some rows \<and> tbl w' = Some (rows @ [row]) \<and>
         name row = trim (form_name f) \<and> category row = trim (form_category f) \<and>
         quantity row \<noteq> 0 \<and>
         (parseInt (form_quantity f) = None \<or> parseInt (form_quantity f) = Some 0
            \<longrightarrow> quantity row = 1) \<and>
         (\<forall>n. parseInt (form_quantity f) = Some n \<and> n \<noteq> 0 \<and> \<bar>n\<bar> \<le> 2 ^ 53
            \<longrightarrow> quantity row = n)"
    by blast
next
  assume "addItem nm q c w = (Some i, w')"
  from addItem_Some [OF this] obtain rows where "tbl w = Some rows"
    and "tbl w' = Some (rows @ [\<lparr>item_id = i, name = nm, quantity = q, category = c,
                                   bought = 0, created_at = clock w (reads w)\<rparr>])"
    by blast
  then have "tbl w = Some rows \<and>
    tbl w' = Some (rows @ [\<lparr>item_id = i, name = nm, quantity = q, category = c,
                                   bought = 0, created_at = clock w (reads w)\<rparr>]) \<and>
    quantity \<lparr>item_id = i, name = nm, quantity = q, category = c,
                                   bought = 0, created_at = clock w (reads w)\<rparr> = q"
    by simp
  then show "\<exists>rows row. tbl w = Some rows \<and> tbl w' = Some (rows @ [row]) \<and> quantity row = q"
    by blast
qed

text \<open>
  Claim C2 as stated fails: \<open>addItem\<close> called with quantity 0 stores 0, and the form with the
  quantity text \<open>-5\<close> stores -5; neither is replaced by 1.
\<close>

theorem quantity_not_defaulted:
  "map quantity (the (tbl (snd (addItem (ascii ''Milk'') 0 (ascii ''Drinks'') empty_store)))) = [0] \<and>
   fst (handleSave (milk_form ''-5'') empty_store) = Saved \<and>
   map quantity (the (tbl (snd (handleSave (milk_form ''-5'') empty_store)))) = [- 5]"
  by (simp add: form_defs empty_store_def seeded_store_def accessor_defs demo_defs)


theorem handleSave_quantity_default_witness:
  "(editItem (milk_form ''no number in these words'') = None \<and>
    handleSave (milk_form ''no number in these words'') empty_store = (Saved, snd (handleSave (milk_form ''no number in these words'') empty_store))) \<and>
   (editItem (milk_form ''-5'') = None \<and>
    handleSave (milk_form ''-5'') empty_store = (Saved, snd (handleSave (milk_form ''-5'') empty_store))) \<and>
   length (form_quantity (milk_form ''no number in these words'')) = 24 \<and>
   map (\<lambda>qty. parseInt (ascii qty)) [[], ''no number in these words'', ''0'', ''-5'', ''3'', '' 12px'']
     = [None, None, Some 0, Some (- 5), Some 3, Some 12] \<and>
   map (\<lambda>qty. map quantity (the (tbl (snd (handleSave (milk_form qty) empty_store)))))
       [[], ''no number in these words'', ''0'', ''-5'', ''3'', '' 12px'']
     = [[1], [1], [1], [- 5], [3], [12]] \<and>
   trim (form_name (milk_form ''-5'')) = ascii ''Milk'' \<and>
   trim (form_category (milk_form ''-5'')) = ascii ''Drinks'' \<and>
   (\<exists>rows row. tbl empty_store = Some rows \<and>
      tbl (snd (handleSave (milk_form ''no number in these words'') empty_store)) = Some (rows @ [row]) \<and>
      name row = trim (form_name (milk_form ''no number in these words'')) \<and>
      category row = trim (form_category (milk_form ''no number in these words'')) \<and>
      quantity row \<noteq> 0 \<and>
      (parseInt (form_quantity (milk_form ''no number in these words'')) = None \<or>
       parseInt (form_quantity (milk_form ''no number in these words'')) = Some 0 \<longrightarrow> quantity row = 1) \<and>
      (\<forall>n. parseInt (form_quantity (milk_form ''no number in these words'')) = Some n \<and> n \<noteq> 0 \<and> \<bar>n\<bar> \<le> 2 ^ 53
          \<longrightarrow> quantity row = n)) \<and>
   (\<exists>rows row. tbl empty_store = Some rows \<and>
      tbl (snd (handleSave (milk_form ''-5'') empty_store)) = Some (rows @ [row]) \<and>
      name row = trim (form_name (milk_form ''-5'')) \<and>
      category row = trim (form_category (milk_form ''-5'')) \<and>
      quantity row \<noteq> 0 \<and>
      (parseInt (form_quantity (milk_form ''-5'')) = None \<or>
       parseInt (form_quantity (milk_form ''-5'')) = Some 0 \<longrightarrow> quantity row = 1) \<and>
      (\<forall>n. parseInt (form_quantity (milk_form ''-5'')) = Some n \<and> n \<noteq> 0 \<and> \<bar>n\<bar> \<le> 2 ^ 53
          \<longrightarrow> quantity row = n)) \<and>
   addItem (ascii ''Milk'') 0 (ascii ''Drinks'') empty_store
     = (Some 4, snd (addItem (ascii ''Milk'') 0 (ascii ''Drinks'') empty_store)) \<and>
   (\<exists>rows row. tbl empty_store = Some rows \<and>
      tbl (snd (addItem (ascii ''Milk'') 0 (ascii ''Drinks'') empty_store)) = Some (rows @ [row]) \<and>
      quantity row = 0)"
proof -
  have s1: "fst (handleSave (milk_form ''no number in these words'') empty_store) = Saved"
    and s2: "fst (handleSave (milk_form ''-5'') empty_store) = Saved"
    by (simp_all add: form_defs empty_store_def seeded_store_def accessor_defs demo_defs)
  have h1: "(editItem (milk_form ''no number in these words'') = None \<and>
    handleSave (milk_form ''no number in these words'') empty_store = (Saved, snd (handleSave (milk_form ''no number in these words'') empty_store)))"
    using s1 by (cases "handleSave (milk_form ''no number in these words'') empty_store") (simp add: milk_form_def)
  have h2: "(editItem (milk_form ''-5'') = None \<and>
    handleSave (milk_form ''-5'') empty_store = (Saved, snd (handleSave (milk_form ''-5'') empty_store)))"
    using s2 by (cases "handleSave (milk_form ''-5'') empty_store") (simp add: milk_form_def)
  have l: "length (form_quantity (milk_form ''no number in these words'')) = 24"
    by (simp add: milk_form_def ascii_def)
  have p: "map (\<lambda>qty. parseInt (ascii qty)) [[], ''no number in these words'', ''0'', ''-5'', ''3'', '' 12px'']
     = [None, None, Some 0, Some (- 5), Some 3, Some 12]"
    by (simp add: form_defs ascii_def)
  have v: "map (\<lambda>qty. map quantity (the (tbl (snd (handleSave (milk_form qty) empty_store)))))
       [[], ''no number in these words'', ''0'', ''-5'', ''3'', '' 12px'']
     = [[1], [1], [1], [- 5], [3], [12]]"
    by (simp add: form_defs empty_store_def seeded_store_def accessor_defs demo_defs)
  have t1: "trim (form_name (milk_form ''-5'')) = ascii ''Milk''"
    and t2: "trim (form_category (milk_form ''-5'')) = ascii ''Drinks''"
    by (simp_all add: form_defs ascii_def)
  have "fst (addItem (ascii ''Milk'') 0 (ascii ''Drinks'') empty_store) = Some 4"
    by (simp add: empty_store_def seeded_store_def accessor_defs demo_defs)
  then have a: "addItem (ascii ''Milk'') 0 (ascii ''Drinks'') empty_store
     = (Some 4, snd (addItem (ascii ''Milk'') 0 (ascii ''Drinks'') empty_store))"
    by (cases "addItem (ascii ''Milk'') 0 (ascii ''Drinks'') empty_store") simp
  note th1 = handleSave_quantity_default [where f = "milk_form ''no number in these words''" and w = empty_store
      and w' = "snd (handleSave (milk_form ''no number in these words'') empty_store)"]
  note th2 = handleSave_quantity_default [where f = "milk_form ''-5''" and w = empty_store
      and w' = "snd (handleSave (milk_form ''-5'') empty_store)"]
  note th3 = handleSave_quantity_default [where w = empty_store and nm = "ascii ''Milk''"
      and q = 0 and c = "ascii ''Drinks''" and i = 4
      and w' = "snd (addItem (ascii ''Milk'') 0 (ascii ''Drinks'') empty_store)"]
  note e1 = th1 [THEN conjunct1, THEN mp, OF h1]
  note e2 = th2 [THEN conjunct1, THEN mp, OF h2]
  note e3 = th3 [THEN conjunct2, THEN mp, OF a]
  show ?thesis
    by (rule conjI [OF h1 conjI [OF h2 conjI [OF l conjI [OF p conjI [OF v conjI [OF t1
          conjI [OF t2 conjI [OF e1 conjI [OF e2 conjI [OF a e3]]]]]]]]]])
qed

end
